theory Spec2Isabelle
  imports Main "HOL-Library.Sublist" "HOL-Library.Word"
begin

section \<open>JavaScript primitives used by the server\<close>

text \<open>
  A JavaScript string is a sequence of UTF-16 code units, 16-bit numbers: \<open>length\<close>,
  \<open>substring\<close>, \<open>includes\<close> and \<open>===\<close> work on the code units. A string constant of the source is
  \<open>lit\<close> of its ASCII text. A JavaScript value that may be \<open>undefined\<close> is an \<open>option\<close>.
\<close>

type_synonym code_unit = "16 word"

type_synonym js_string = "code_unit list"

definition lit :: "string \<Rightarrow> js_string" where
  "lit s = map of_char s"

text \<open>
  \<open>s.toLowerCase()\<close>. On a string of ASCII code units it lowers the letters \<open>A\<close> to \<open>Z\<close>.
  On any other string its value is given by the Unicode case tables, which are not part
  of the repository: they are the parameter \<open>unicode_lower\<close> of every function that
  lowers a string.
\<close>

definition lower_unit :: "code_unit \<Rightarrow> code_unit" where
  "lower_unit c = (if 65 \<le> c \<and> c \<le> 90 then c + 32 else c)"

definition toLowerCase :: "(js_string \<Rightarrow> js_string) \<Rightarrow> js_string \<Rightarrow> js_string" where
  "toLowerCase unicode_lower s =
     (if list_all (\<lambda>c. c < 128) s then map lower_unit s else unicode_lower s)"

text \<open>\<open>s.includes(t)\<close>: \<open>t\<close> occurs in \<open>s\<close> as a contiguous substring.\<close>

fun js_includes :: "js_string \<Rightarrow> js_string \<Rightarrow> bool" where
  "js_includes [] t = (t = [])"
| "js_includes (c # cs) t = (prefix t (c # cs) \<or> js_includes cs t)"

text \<open>
  The code units that \<open>\s\<close> matches and \<open>trim\<close> removes: the white space and line
  terminators of ECMAScript.
\<close>

definition is_space :: "code_unit \<Rightarrow> bool" where
  "is_space c =
     ((9 \<le> c \<and> c \<le> 13) \<or> c = 32 \<or> c = 160 \<or> c = 5760 \<or> (8192 \<le> c \<and> c \<le> 8202) \<or>
      c = 8232 \<or> c = 8233 \<or> c = 8239 \<or> c = 8287 \<or> c = 12288 \<or> c = 65279)"

text \<open>
  \<open>s.split(/\s+/)\<close>: the pieces between maximal runs of white space; a run at either end
  leaves an empty piece there, and the empty string splits into one empty piece.
\<close>

fun split_ws :: "js_string \<Rightarrow> js_string list" where
  "split_ws [] = [[]]"
| "split_ws (c # cs) =
     (if is_space c then
        (case cs of
           [] \<Rightarrow> [] # split_ws cs
         | d # _ \<Rightarrow> if is_space d then split_ws cs else [] # split_ws cs)
      else
        (case split_ws cs of
           [] \<Rightarrow> [[c]]
         | w # ws \<Rightarrow> (c # w) # ws))"

definition trim :: "js_string \<Rightarrow> js_string" where
  "trim s = rev (dropWhile is_space (rev (dropWhile is_space s)))"

text \<open>\<open>s.split("\n")[0]\<close>: the text before the first line feed.\<close>

definition first_line :: "js_string \<Rightarrow> js_string" where
  "first_line s = takeWhile (\<lambda>c. c \<noteq> 10) s"

text \<open>\<open>a || b\<close> on values that are strings or \<open>undefined\<close>: the empty string is falsy.\<close>

definition js_or :: "js_string option \<Rightarrow> js_string option \<Rightarrow> js_string option" where
  "js_or a b = (case a of None \<Rightarrow> b | Some s \<Rightarrow> if s = [] then b else Some s)"

definition or_empty :: "js_string option \<Rightarrow> js_string" where
  "or_empty a = (case a of None \<Rightarrow> [] | Some s \<Rightarrow> s)"

text \<open>A value interpolated into a template literal.\<close>

definition js_str :: "js_string option \<Rightarrow> js_string" where
  "js_str a = (case a of None \<Rightarrow> lit ''undefined'' | Some s \<Rightarrow> s)"

text \<open>A number interpolated into a template literal: its decimal digits.\<close>

fun string_of_nat :: "nat \<Rightarrow> js_string" where
  "string_of_nat n =
     (if n < 10 then [48 + of_nat n]
      else string_of_nat (n div 10) @ [48 + of_nat (n mod 10)])"

text \<open>\<open>xs.findIndex(p)\<close>, with \<open>None\<close> for \<open>-1\<close>.\<close>

fun findIndex :: "('a \<Rightarrow> bool) \<Rightarrow> 'a list \<Rightarrow> nat option" where
  "findIndex p [] = None"
| "findIndex p (x # xs) = (if p x then Some 0 else map_option Suc (findIndex p xs))"

section \<open>Data model\<close>

text \<open>
  A time stamp is a reading of the system clock in milliseconds; \<open>toISOString\<close> is its
  rendering and \<open>Date.now()\<close> its number. Every clock reading an operation makes is a
  parameter of the operation.
\<close>

type_synonym timestamp = nat

record attachment =
  att_id :: js_string
  att_url :: js_string
  att_filename :: js_string
  att_mediaType :: js_string

record contractor =
  c_id :: js_string
  c_name :: js_string
  c_service :: "js_string option"

text \<open>
  A stored work order is a JSON object: every field but the identifier may be absent, and
  records written by earlier revisions carry \<open>tenantId\<close>, \<open>issueDescription\<close>,
  \<open>contractorId\<close> and \<open>createdAt\<close> in place of the current names.
\<close>

record work_order =
  wo_id :: js_string
  tenant_id :: "js_string option"
  tenantId :: "js_string option"
  issue_summary :: "js_string option"
  issueDescription :: "js_string option"
  contractor_id :: "js_string option"
  contractorId :: "js_string option"
  contractor_name :: "js_string option"
  trade :: "js_string option"
  priority :: "js_string option"
  status :: "js_string option"
  created_at :: "timestamp option"
  createdAt :: "timestamp option"
  updated_at :: "timestamp option"
  resolved_at :: "timestamp option"
  resolution_notes :: "js_string option"
  attachments :: "attachment list option"

datatype tool_error =
    WorkOrderNotFound "js_string option"
  | ContractorNotFound js_string "contractor list"
  | TypeError

text \<open>
  What a mutating tool returns to the conversation: the record without its attachments,
  their number, and for a creation the note about saved photos.
\<close>

record order_response =
  r_order :: work_order
  r_attachments_count :: nat
  r_note :: "js_string option"

definition without_attachments :: "work_order \<Rightarrow> work_order" where
  "without_attachments wo = wo\<lparr>attachments := None\<rparr>"

definition attachments_length :: "attachment list option \<Rightarrow> nat" where
  "attachments_length a = (case a of None \<Rightarrow> 0 | Some xs \<Rightarrow> length xs)"

section \<open>Work-order operations (tools.js)\<close>

text \<open>
  Every operation reads the whole collection, changes its copy and writes the whole
  collection back. The model takes the collection read and returns the collection stored
  afterwards together with the result or the exception; an exception is raised before
  the write, so the collection is then the one read. A missing file reads as the empty
  collection. The tools do not look at what \<open>writeJSON\<close> returns; the collection returned
  here is the one handed to it.
\<close>

text \<open>The three lookups of \<open>create_work_order\<close>: identifier, name, part of the name.\<close>

definition find_contractor ::
  "(js_string \<Rightarrow> js_string) \<Rightarrow> contractor list \<Rightarrow> js_string \<Rightarrow> contractor option" where
  "find_contractor ul contractors cid =
     (case List.find (\<lambda>c. c_id c = cid) contractors of
        Some c \<Rightarrow> Some c
      | None \<Rightarrow>
          (case List.find (\<lambda>c. toLowerCase ul (c_name c) = toLowerCase ul cid) contractors of
             Some c \<Rightarrow> Some c
           | None \<Rightarrow>
               List.find (\<lambda>c. js_includes (toLowerCase ul (c_name c)) (toLowerCase ul cid))
                 contractors))"

definition photo_note :: "nat \<Rightarrow> js_string option" where
  "photo_note n =
     (if n > 0 then Some (string_of_nat n @ (lit '' photo(s) attached and saved with work order''))
      else None)"

definition create_work_order ::
  "(js_string \<Rightarrow> js_string) \<Rightarrow> nat \<Rightarrow> timestamp \<Rightarrow> contractor list \<Rightarrow> work_order list \<Rightarrow>
   js_string option \<Rightarrow> js_string option \<Rightarrow> js_string option \<Rightarrow> js_string option \<Rightarrow>
   attachment list option \<Rightarrow> work_order list \<times> (tool_error + order_response)" where
  "create_work_order ul now_ms now contractors workOrders
       tenant_id' issue_summary' contractor_id' priority' attachments' =
     (case contractor_id' of
        None \<Rightarrow>
          \<comment> \<open>no contractor has an undefined id; the name lookup then calls
              \<open>toLowerCase\<close> on \<open>undefined\<close> as soon as there is a contractor to test\<close>
          (if contractors = [] then (workOrders, Inl (ContractorNotFound (lit ''undefined'') []))
           else (workOrders, Inl TypeError))
      | Some cid \<Rightarrow>
          (case find_contractor ul contractors cid of
             None \<Rightarrow> (workOrders, Inl (ContractorNotFound cid contractors))
           | Some c \<Rightarrow>
               let newOrder = \<lparr>
                     wo_id = (lit ''wo-'') @ string_of_nat now_ms,
                     tenant_id = tenant_id',
                     tenantId = None,
                     issue_summary = issue_summary',
                     issueDescription = None,
                     contractor_id = Some (c_id c),
                     contractorId = None,
                     contractor_name = Some (c_name c),
                     trade = c_service c,
                     priority = priority',
                     status = Some (lit ''assigned''),
                     created_at = Some now,
                     createdAt = None,
                     updated_at = None,
                     resolved_at = None,
                     resolution_notes = None,
                     attachments = Some (case attachments' of None \<Rightarrow> [] | Some a \<Rightarrow> a)
                   \<rparr>
               in (workOrders @ [newOrder],
                   Inr \<lparr> r_order = without_attachments newOrder,
                         r_attachments_count = attachments_length attachments',
                         r_note = photo_note (attachments_length attachments') \<rparr>)))"

definition update_work_order ::
  "timestamp \<Rightarrow> work_order list \<Rightarrow> js_string option \<Rightarrow> js_string option \<Rightarrow> js_string option \<Rightarrow>
   js_string option \<Rightarrow> work_order list \<times> (tool_error + order_response)" where
  "update_work_order now workOrders work_order_id issue_summary' priority' status' =
     (case findIndex (\<lambda>wo. Some (wo_id wo) = work_order_id) workOrders of
        None \<Rightarrow> (workOrders, Inl (WorkOrderNotFound work_order_id))
      | Some orderIndex \<Rightarrow>
          let wo0 = workOrders ! orderIndex;
              wo1 = (case issue_summary' of None \<Rightarrow> wo0 | Some v \<Rightarrow> wo0\<lparr>issue_summary := Some v\<rparr>);
              wo2 = (case priority' of None \<Rightarrow> wo1 | Some v \<Rightarrow> wo1\<lparr>priority := Some v\<rparr>);
              wo3 = (case status' of None \<Rightarrow> wo2 | Some v \<Rightarrow> wo2\<lparr>status := Some v\<rparr>);
              wo4 = wo3\<lparr>updated_at := Some now\<rparr>
          in (workOrders[orderIndex := wo4],
              Inr \<lparr> r_order = without_attachments wo4,
                    r_attachments_count = attachments_length (attachments wo4),
                    r_note = None \<rparr>))"

text \<open>\<open>complete_work_order\<close> reads the clock twice, for \<open>updated_at\<close> and for \<open>resolved_at\<close>.\<close>

definition complete_work_order ::
  "timestamp \<Rightarrow> timestamp \<Rightarrow> work_order list \<Rightarrow> js_string option \<Rightarrow> js_string option \<Rightarrow>
   work_order list \<times> (tool_error + order_response)" where
  "complete_work_order now now' workOrders work_order_id resolution_notes' =
     (case findIndex (\<lambda>wo. Some (wo_id wo) = work_order_id) workOrders of
        None \<Rightarrow> (workOrders, Inl (WorkOrderNotFound work_order_id))
      | Some orderIndex \<Rightarrow>
          let wo0 = workOrders ! orderIndex;
              wo1 = wo0\<lparr>status := Some (lit ''solved'')\<rparr>;
              wo2 = wo1\<lparr>updated_at := Some now\<rparr>;
              wo3 = wo2\<lparr>resolved_at := Some now'\<rparr>;
              wo4 = (case resolution_notes' of
                       None \<Rightarrow> wo3
                     | Some v \<Rightarrow> if v = [] then wo3 else wo3\<lparr>resolution_notes := Some v\<rparr>)
          in (workOrders[orderIndex := wo4],
              Inr \<lparr> r_order = without_attachments wo4,
                    r_attachments_count = attachments_length (attachments wo4),
                    r_note = None \<rparr>))"

definition delete_work_order ::
  "work_order list \<Rightarrow> js_string option \<Rightarrow> work_order list \<times> (tool_error + order_response)" where
  "delete_work_order workOrders work_order_id =
     (case findIndex (\<lambda>wo. Some (wo_id wo) = work_order_id) workOrders of
        None \<Rightarrow> (workOrders, Inl (WorkOrderNotFound work_order_id))
      | Some orderIndex \<Rightarrow>
          let deletedOrder = workOrders ! orderIndex
          in (take orderIndex workOrders @ drop (Suc orderIndex) workOrders,
              Inr \<lparr> r_order = without_attachments deletedOrder,
                    r_attachments_count = attachments_length (attachments deletedOrder),
                    r_note = None \<rparr>))"

definition get_available_contractors ::
  "(js_string \<Rightarrow> js_string) \<Rightarrow> contractor list \<Rightarrow> js_string option \<Rightarrow> contractor list" where
  "get_available_contractors ul contractors trade' =
     filter (\<lambda>c. toLowerCase ul (or_empty (c_service c)) = toLowerCase ul (or_empty trade') \<or>
                 js_includes (toLowerCase ul (c_name c)) (toLowerCase ul (or_empty trade')))
       contractors"

record order_view =
  v_id :: js_string
  v_tenant_id :: "js_string option"
  v_issue_summary :: "js_string option"
  v_contractor_id :: "js_string option"
  v_contractor_name :: "js_string option"
  v_trade :: "js_string option"
  v_priority :: "js_string option"
  v_status :: "js_string option"
  v_created_at :: "timestamp option"
  v_attachments_count :: nat
  v_has_photos :: bool

definition ts_or :: "timestamp option \<Rightarrow> timestamp option \<Rightarrow> timestamp option" where
  "ts_or a b = (case a of None \<Rightarrow> b | Some t \<Rightarrow> Some t)"

definition get_work_orders ::
  "(js_string \<Rightarrow> js_string) \<Rightarrow> work_order list \<Rightarrow> js_string option \<Rightarrow> js_string option \<Rightarrow>
   order_view list" where
  "get_work_orders ul workOrders tenant_id' status_filter =
     (let filtered = filter (\<lambda>wo. js_or (tenant_id wo) (tenantId wo) = tenant_id') workOrders;
          filtered' =
            (case status_filter of
               None \<Rightarrow> filtered
             | Some f \<Rightarrow>
                 if f = [] then filtered
                 else filter (\<lambda>wo. toLowerCase ul (or_empty (status wo)) = toLowerCase ul f) filtered)
      in map (\<lambda>wo. \<lparr>
               v_id = wo_id wo,
               v_tenant_id = js_or (tenant_id wo) (tenantId wo),
               v_issue_summary = js_or (issue_summary wo) (issueDescription wo),
               v_contractor_id = js_or (contractor_id wo) (contractorId wo),
               v_contractor_name = contractor_name wo,
               v_trade = trade wo,
               v_priority = priority wo,
               v_status = status wo,
               v_created_at = ts_or (created_at wo) (createdAt wo),
               v_attachments_count = attachments_length (attachments wo),
               v_has_photos = (attachments_length (attachments wo) > 0) \<rparr>) filtered')"

section \<open>Duplicate issue detector (tools.js)\<close>

record existing_issue =
  e_id :: js_string
  e_issue_summary :: "js_string option"
  e_trade :: js_string
  e_priority :: "js_string option"
  e_status :: "js_string option"
  e_created_at :: "timestamp option"

record brief_issue =
  b_id :: js_string
  b_issue_summary :: "js_string option"
  b_trade :: js_string

text \<open>
  The secondary reasoning call. Its prompt is a fixed text around the new description and
  the list of existing issues, so the engine is a function of these two; it either fails
  (the request is rejected, or the reply is not JSON) or returns a verdict of the
  declared shape.
\<close>

record verdict =
  is_similar :: bool
  matching_order_id :: "js_string option"
  reasoning :: js_string

datatype judge_outcome = JudgeFailed | JudgeVerdict verdict

type_synonym judge = "js_string option \<Rightarrow> existing_issue list \<Rightarrow> judge_outcome"

record comparison =
  cmp_has_similar :: bool
  cmp_similar_order :: "existing_issue option"
  cmp_reasoning :: js_string

datatype exception = Thrown

definition compareIssuesWithLLM ::
  "judge \<Rightarrow> js_string option \<Rightarrow> existing_issue list \<Rightarrow> exception + comparison" where
  "compareIssuesWithLLM judge newIssue existingIssues =
     (case judge newIssue existingIssues of
        JudgeFailed \<Rightarrow> Inl Thrown
      | JudgeVerdict result \<Rightarrow>
          if is_similar result \<and> matching_order_id result \<noteq> None
               \<and> matching_order_id result \<noteq> Some []
          then Inr \<lparr> cmp_has_similar = True,
                     cmp_similar_order =
                       List.find (\<lambda>e. Some (e_id e) = matching_order_id result) existingIssues,
                     cmp_reasoning = reasoning result \<rparr>
          else Inr \<lparr> cmp_has_similar = False,
                     cmp_similar_order = None,
                     cmp_reasoning = reasoning result \<rparr>)"

record similar_result =
  has_similar :: bool
  similar_order :: "existing_issue option"
  sr_reasoning :: "js_string option"
  error :: "js_string option"
  active_orders_count :: "nat option"
  existing_issues :: "brief_issue list option"
  message :: js_string

definition brief :: "existing_issue \<Rightarrow> brief_issue" where
  "brief e = \<lparr> b_id = e_id e, b_issue_summary = e_issue_summary e, b_trade = e_trade e \<rparr>"

definition is_active_for ::
  "(js_string \<Rightarrow> js_string) \<Rightarrow> js_string option \<Rightarrow> work_order \<Rightarrow> bool" where
  "is_active_for ul tenant_id' wo =
     (let woTenantId = js_or (tenant_id wo) (tenantId wo);
          woStatus = toLowerCase ul (or_empty (status wo));
          isActiveStatus =
            (woStatus = (lit ''assigned'') \<or> woStatus = (lit ''pending'') \<or> woStatus = (lit ''in_progress''))
      in woTenantId = tenant_id' \<and> isActiveStatus)"

definition to_existing_issue :: "work_order \<Rightarrow> existing_issue" where
  "to_existing_issue wo =
     \<lparr> e_id = wo_id wo,
       e_issue_summary = js_or (issue_summary wo) (issueDescription wo),
       e_trade = (case js_or (trade wo) None of None \<Rightarrow> (lit ''unknown'') | Some t \<Rightarrow> t),
       e_priority = priority wo,
       e_status = status wo,
       e_created_at = ts_or (created_at wo) (createdAt wo) \<rparr>"

text \<open>
  The result comes with the list of secondary reasoning calls made, each with its
  arguments: the empty list when the engine was not called.
\<close>

definition check_similar_issues ::
  "(js_string \<Rightarrow> js_string) \<Rightarrow> judge \<Rightarrow> work_order list \<Rightarrow> js_string option \<Rightarrow> js_string option \<Rightarrow>
   similar_result \<times> (js_string option \<times> existing_issue list) list" where
  "check_similar_issues ul judge workOrders tenant_id' new_issue_description =
     (let activeOrders = filter (is_active_for ul tenant_id') workOrders
      in if length activeOrders = 0 then
           (\<lparr> has_similar = False, similar_order = None, sr_reasoning = None, error = None,
               active_orders_count = Some 0, existing_issues = None,
               message = (lit ''No active work orders found for this tenant. Safe to create a new work order.'') \<rparr>,
            [])
         else
           let existingIssues = map to_existing_issue activeOrders;
               calls = [(new_issue_description, existingIssues)];
               fallback =
                 \<lparr> has_similar = False, similar_order = None, sr_reasoning = None,
                   error = Some (lit ''Could not perform semantic comparison''),
                   active_orders_count = Some (length activeOrders),
                   existing_issues = Some (map brief existingIssues),
                   message = (lit ''Unable to automatically compare issues. Please review existing orders manually before creating a new one.'') \<rparr>
           in case compareIssuesWithLLM judge new_issue_description existingIssues of
                Inl _ \<Rightarrow> (fallback, calls)
              | Inr comparisonResult \<Rightarrow>
                  if cmp_has_similar comparisonResult then
                    (case cmp_similar_order comparisonResult of
                       None \<Rightarrow>
                         \<comment> \<open>the message reads \<open>similar_order.issue_summary\<close> of \<open>undefined\<close>:
                             a TypeError inside the \<open>try\<close>\<close>
                         (fallback, calls)
                     | Some so \<Rightarrow>
                         (\<lparr> has_similar = True, similar_order = Some so,
                             sr_reasoning = Some (cmp_reasoning comparisonResult),
                             error = None, active_orders_count = None, existing_issues = None,
                             message = (lit ''A similar issue was found: '') @ [34]
                               @ js_str (e_issue_summary so) @ [34] @ (lit '' (Work Order: '')
                               @ e_id so
                               @ (lit ''). Please ask the tenant to confirm if this is the same issue or a genuinely different one before creating a new work order.'') \<rparr>,
                          calls))
                  else
                    (\<lparr> has_similar = False, similar_order = None, sr_reasoning = None,
                        error = None,
                        active_orders_count = Some (length activeOrders),
                        existing_issues = Some (map brief existingIssues),
                        message = (lit ''No similar issues found among active work orders. Safe to create a new work order if needed.'') \<rparr>,
                     calls))"

section \<open>Knowledge retriever (knowledge.js)\<close>

record article =
  a_id :: "js_string option"
  title :: "js_string option"
  content :: "js_string option"
  tags :: "js_string list option"

record scored_article =
  sa_id :: "js_string option"
  sa_title :: "js_string option"
  sa_content :: "js_string option"
  sa_tags :: "js_string list option"
  score :: nat

fun join_sp :: "js_string list \<Rightarrow> js_string" where
  "join_sp [] = []"
| "join_sp [x] = x"
| "join_sp (x # y # ys) = x @ (lit '' '') @ join_sp (y # ys)"

definition term_score ::
  "(js_string \<Rightarrow> js_string) \<Rightarrow> js_string \<Rightarrow> js_string \<Rightarrow> js_string \<Rightarrow> nat" where
  "term_score ul safeTitle text term' =
     (if js_includes text term' then
        1 + (if safeTitle \<noteq> [] \<and> js_includes (toLowerCase ul safeTitle) term' then 2 else 0)
      else 0)"

definition score_article ::
  "(js_string \<Rightarrow> js_string) \<Rightarrow> js_string list \<Rightarrow> article \<Rightarrow> scored_article" where
  "score_article ul terms a =
     (let safeTitle = or_empty (title a);
          safeContent = or_empty (content a);
          safeTags = (case tags a of None \<Rightarrow> [] | Some ts \<Rightarrow> ts);
          text = toLowerCase ul (safeTitle @ (lit '' '') @ safeContent @ (lit '' '') @ join_sp safeTags);
          score' = sum_list (map (term_score ul safeTitle text) terms);
          displayTitle =
            (if js_or (title a) None = None \<and> safeContent \<noteq> [] then
               (let firstLine = trim (first_line safeContent)
                in Some (if length firstLine > 50 then take 47 firstLine @ (lit ''...'')
                         else firstLine))
             else title a)
      in \<lparr> sa_id = a_id a, sa_title = displayTitle, sa_content = content a,
           sa_tags = tags a, score = score' \<rparr>)"

text \<open>
  \<open>Array.prototype.sort\<close> is a stable sort by the comparison function, here
  \<open>b.score - a.score\<close>: the stable insertion sort of the library on the key \<open>- score\<close>.
  A query that is \<open>undefined\<close> raises at \<open>query.toLowerCase()\<close>, after the test for a
  missing corpus.
\<close>

definition searchKnowledge ::
  "(js_string \<Rightarrow> js_string) \<Rightarrow> article list option \<Rightarrow> js_string option \<Rightarrow>
   tool_error + scored_article list" where
  "searchKnowledge ul knowledge query =
     (case knowledge of
        None \<Rightarrow> Inr []
      | Some articles \<Rightarrow>
          (case query of
             None \<Rightarrow> Inl TypeError
           | Some q \<Rightarrow>
               let terms = split_ws (toLowerCase ul q);
                   results = map (score_article ul terms) articles
               in Inr (take 3 (sort_key (\<lambda>r. - int (score r))
                                 (filter (\<lambda>r. score r > 0) results)))))"

section \<open>Conversation controller (chat.js, latest revision)\<close>

record tenant =
  t_id :: js_string
  t_name :: js_string
  t_unit :: js_string

text \<open>
  The arguments of a tool call are a JSON object written by the reasoning engine: any of
  the fields the tools read may be present.
\<close>

record tool_args =
  arg_query :: "js_string option"
  arg_trade :: "js_string option"
  arg_tenant_id :: "js_string option"
  arg_new_issue_description :: "js_string option"
  arg_issue_summary :: "js_string option"
  arg_contractor_id :: "js_string option"
  arg_priority :: "js_string option"
  arg_attachments :: "attachment list option"
  arg_status_filter :: "js_string option"
  arg_work_order_id :: "js_string option"
  arg_status :: "js_string option"
  arg_resolution_notes :: "js_string option"

text \<open>\<open>tc_arguments\<close> is \<open>JSON.parse\<close> of the argument text: \<open>None\<close> when it raises.\<close>

record tool_call =
  tc_id :: js_string
  tc_name :: js_string
  tc_arguments :: "tool_args option"

datatype result_error = UnknownTool | Raised tool_error

datatype tool_result =
    KnowledgeResult "scored_article list"
  | SimilarResult similar_result
  | ContractorsResult "contractor list"
  | OrdersResult "order_view list"
  | OrderResult order_response
  | DeletedResult order_response
  | ErrorResult result_error

record assistant_message =
  am_content :: "js_string option"
  am_tool_calls :: "tool_call list option"

record chat_message =
  m_role :: js_string
  m_content :: js_string

text \<open>
  The system message is the fixed prompt with the tenant's id, name and unit substituted
  and, when the request carries photos, the note with their number: it is represented by
  what is substituted.
\<close>

datatype message =
    SystemMsg js_string js_string js_string "nat option"
  | ChatMsg chat_message
  | AssistantMsg assistant_message
  | ToolMsg js_string js_string tool_result

datatype llm_outcome = LlmFailed | LlmReply assistant_message

record chat_request =
  req_messages :: "chat_message list option"
  req_tenantId :: "js_string option"
  req_attachments :: "attachment list option"

text \<open>
  What a turn reads and does not change: the two engines, the clock (its \<open>k\<close>-th reading),
  the Unicode case tables, and the tenant, contractor and article files.
\<close>

record env =
  llm :: "message list \<Rightarrow> llm_outcome"
  judge_of :: judge
  clock :: "nat \<Rightarrow> timestamp"
  unicode_lower :: "js_string \<Rightarrow> js_string"
  tenants :: "tenant list option"
  contractors_file :: "contractor list"
  knowledge_file :: "article list option"

text \<open>
  The state of a turn. Beside the three lists the handler keeps and the work-order file,
  it records the clock readings made, the secondary reasoning calls made and, in
  \<open>dispatched\<close>, the name of every tool run together with the argument object that was
  handed to it.
\<close>

record turn_state =
  conversation :: "message list"
  allToolCalls :: "tool_call list"
  allToolResults :: "(js_string \<times> tool_result) list"
  work_orders_file :: "work_order list"
  clock_reads :: nat
  judge_calls :: "(js_string option \<times> existing_issue list) list"
  dispatched :: "(js_string \<times> tool_args) list"

datatype http_response =
    Ok200 assistant_message "tool_call list" "(js_string \<times> tool_result) list"
  | Error500 js_string

definition MAX_LOOPS :: nat where
  "MAX_LOOPS = 5"

definition MAX_HISTORY_MESSAGES :: nat where
  "MAX_HISTORY_MESSAGES = 4"

definition of_outcome ::
  "(order_response \<Rightarrow> tool_result) \<Rightarrow> tool_error + order_response \<Rightarrow> tool_result" where
  "of_outcome ok r = (case r of Inl e \<Rightarrow> ErrorResult (Raised e) | Inr v \<Rightarrow> ok v)"

text \<open>
  The body of the \<open>try\<close> for one tool call: the tool's result, or the error result the
  \<open>catch\<close> makes of an exception, with the work-order file, the clock and the secondary
  calls after it. The object built for the tool (\<open>{...args, tenant_id: tenant.id}\<close> for
  the three tools that take a tenant) is \<open>args'\<close>; it is what the tool reads and what
  \<open>dispatched\<close> records.
\<close>

definition run_tool ::
  "env \<Rightarrow> tenant \<Rightarrow> attachment list option \<Rightarrow> js_string \<Rightarrow> tool_args \<Rightarrow> turn_state \<Rightarrow>
   tool_result \<times> turn_state" where
  "run_tool e tenant' attachments' functionName args st =
     (if functionName = lit ''search_knowledge_base'' then
        ((case searchKnowledge (unicode_lower e) (knowledge_file e) (arg_query args) of
            Inl err \<Rightarrow> ErrorResult (Raised err)
          | Inr rs \<Rightarrow> KnowledgeResult rs),
         st\<lparr>dispatched := dispatched st @ [(functionName, args)]\<rparr>)
      else if functionName = lit ''check_similar_issues'' then
        (let args' = args\<lparr>arg_tenant_id := Some (t_id tenant')\<rparr>;
             (r, calls) = check_similar_issues (unicode_lower e) (judge_of e)
                            (work_orders_file st)
                            (arg_tenant_id args') (arg_new_issue_description args')
         in (SimilarResult r,
             st\<lparr>judge_calls := judge_calls st @ calls,
                dispatched := dispatched st @ [(functionName, args')]\<rparr>))
      else if functionName = lit ''get_available_contractors'' then
        (ContractorsResult
           (get_available_contractors (unicode_lower e) (contractors_file e) (arg_trade args)),
         st\<lparr>dispatched := dispatched st @ [(functionName, args)]\<rparr>)
      else if functionName = lit ''create_work_order'' then
        (let args' = args\<lparr>arg_tenant_id := Some (t_id tenant'),
                         arg_attachments :=
                           Some (case attachments' of None \<Rightarrow> [] | Some a \<Rightarrow> a)\<rparr>;
             (wos, r) = create_work_order (unicode_lower e) (clock e (clock_reads st))
                          (clock e (Suc (clock_reads st)))
                          (contractors_file e) (work_orders_file st)
                          (arg_tenant_id args') (arg_issue_summary args')
                          (arg_contractor_id args') (arg_priority args') (arg_attachments args')
         in (of_outcome OrderResult r,
             st\<lparr>work_orders_file := wos,
                clock_reads := (case r of Inl _ \<Rightarrow> clock_reads st
                                | Inr _ \<Rightarrow> clock_reads st + 2),
                dispatched := dispatched st @ [(functionName, args')]\<rparr>))
      else if functionName = lit ''get_work_orders'' then
        (let args' = args\<lparr>arg_tenant_id := Some (t_id tenant')\<rparr>
         in (OrdersResult (get_work_orders (unicode_lower e) (work_orders_file st)
                             (arg_tenant_id args') (arg_status_filter args')),
             st\<lparr>dispatched := dispatched st @ [(functionName, args')]\<rparr>))
      else if functionName = lit ''update_work_order'' then
        (let (wos, r) = update_work_order (clock e (clock_reads st)) (work_orders_file st)
                          (arg_work_order_id args) (arg_issue_summary args)
                          (arg_priority args) (arg_status args)
         in (of_outcome OrderResult r,
             st\<lparr>work_orders_file := wos,
                clock_reads := (case r of Inl _ \<Rightarrow> clock_reads st
                                | Inr _ \<Rightarrow> clock_reads st + 1),
                dispatched := dispatched st @ [(functionName, args)]\<rparr>))
      else if functionName = lit ''complete_work_order'' then
        (let (wos, r) = complete_work_order (clock e (clock_reads st))
                          (clock e (Suc (clock_reads st))) (work_orders_file st)
                          (arg_work_order_id args) (arg_resolution_notes args)
         in (of_outcome OrderResult r,
             st\<lparr>work_orders_file := wos,
                clock_reads := (case r of Inl _ \<Rightarrow> clock_reads st
                                | Inr _ \<Rightarrow> clock_reads st + 2),
                dispatched := dispatched st @ [(functionName, args)]\<rparr>))
      else if functionName = lit ''delete_work_order'' then
        (let (wos, r) = delete_work_order (work_orders_file st) (arg_work_order_id args)
         in (of_outcome DeletedResult r,
             st\<lparr>work_orders_file := wos,
                dispatched := dispatched st @ [(functionName, args)]\<rparr>))
      else (ErrorResult UnknownTool, st))"

text \<open>
  The \<open>for\<close> loop over the tool calls of one reply. \<open>JSON.parse\<close> of the arguments is
  outside the inner \<open>try\<close>: when it raises, the turn ends in the outer \<open>catch\<close>, with the
  state reached (\<open>Inl\<close>).
\<close>

fun run_tool_calls ::
  "env \<Rightarrow> tenant \<Rightarrow> attachment list option \<Rightarrow> tool_call list \<Rightarrow> turn_state \<Rightarrow>
   turn_state + turn_state" where
  "run_tool_calls e tenant' attachments' [] st = Inr st"
| "run_tool_calls e tenant' attachments' (toolCall # rest) st =
     (case tc_arguments toolCall of
        None \<Rightarrow> Inl st
      | Some args \<Rightarrow>
          let functionName = tc_name toolCall;
              (result, st') = run_tool e tenant' attachments' functionName args st;
              st'' = st'\<lparr>allToolResults := allToolResults st' @ [(functionName, result)],
                        conversation := conversation st'
                          @ [ToolMsg (tc_id toolCall) functionName result]\<rparr>
          in run_tool_calls e tenant' attachments' rest st'')"

text \<open>The state in which the \<open>for\<close> loop ended, whichever way it ended.\<close>

definition reached :: "turn_state + turn_state \<Rightarrow> turn_state" where
  "reached r = (case r of Inl st \<Rightarrow> st | Inr st \<Rightarrow> st)"

text \<open>
  The \<open>while\<close> loop. The result is the response sent, the state reached and the value of
  \<open>loopCount\<close> when the handler returns.
\<close>

function agent_loop ::
  "env \<Rightarrow> tenant \<Rightarrow> attachment list option \<Rightarrow> nat \<Rightarrow> turn_state \<Rightarrow>
   http_response \<times> turn_state \<times> nat" where
  "agent_loop e tenant' attachments' loopCount st =
     (if loopCount < MAX_LOOPS then
        (case llm e (conversation st) of
           LlmFailed \<Rightarrow> (Error500 (lit ''Internal Server Error''), st, loopCount + 1)
         | LlmReply responseMessage \<Rightarrow>
             (case am_tool_calls responseMessage of
                None \<Rightarrow>
                  (Ok200 responseMessage (allToolCalls st) (allToolResults st), st,
                   loopCount + 1)
              | Some tcs \<Rightarrow>
                  (case run_tool_calls e tenant' attachments' tcs
                          (st\<lparr>conversation := conversation st @ [AssistantMsg responseMessage],
                             allToolCalls := allToolCalls st @ tcs\<rparr>) of
                     Inl st' \<Rightarrow> (Error500 (lit ''Internal Server Error''), st', loopCount + 1)
                   | Inr st' \<Rightarrow> agent_loop e tenant' attachments' (loopCount + 1) st')))
      else (Error500 (lit ''Agent loop limit exceeded''), st, loopCount))"
  by pat_completeness auto
termination
  by (relation "measure (\<lambda>(e, tenant', attachments', loopCount, st). MAX_LOOPS - loopCount)")
     auto

declare agent_loop.simps [simp del]

text \<open>\<open>tenants.find((t) => t.id === tenantId) || tenants[0]\<close>; \<open>None\<close> is \<open>undefined\<close>.\<close>

definition session_tenant :: "tenant list \<Rightarrow> js_string option \<Rightarrow> tenant option" where
  "session_tenant ts tenantId' =
     (case List.find (\<lambda>t. Some (t_id t) = tenantId') ts of
        Some t \<Rightarrow> Some t
      | None \<Rightarrow> (case ts of [] \<Rightarrow> None | t # _ \<Rightarrow> Some t))"

definition recent_messages :: "chat_message list \<Rightarrow> chat_message list" where
  "recent_messages messages =
     (if length messages > MAX_HISTORY_MESSAGES
      then drop (length messages - MAX_HISTORY_MESSAGES) messages
      else messages)"

definition photo_count :: "attachment list option \<Rightarrow> nat option" where
  "photo_count attachments' =
     (case attachments' of
        None \<Rightarrow> None
      | Some a \<Rightarrow> if length a > 0 then Some (length a) else None)"

text \<open>
  The handler, from the request and the work-order file to the response, the work-order
  file afterwards, the final \<open>loopCount\<close> and the secondary calls made. A missing tenant
  file, an empty one with no match, or a request without messages raises before the
  loop.
\<close>

definition chatHandler ::
  "env \<Rightarrow> chat_request \<Rightarrow> work_order list \<Rightarrow> nat \<Rightarrow> http_response \<times> turn_state \<times> nat" where
  "chatHandler e req workOrders reads =
     (let failed = (Error500 (lit ''Internal Server Error''),
                    \<lparr> conversation = [], allToolCalls = [], allToolResults = [],
                      work_orders_file = workOrders, clock_reads = reads, judge_calls = [],
                      dispatched = [] \<rparr>,
                    0)
      in case tenants e of
           None \<Rightarrow> failed
         | Some ts \<Rightarrow>
             (case session_tenant ts (req_tenantId req) of
                None \<Rightarrow> failed
              | Some tenant' \<Rightarrow>
                  (case req_messages req of
                     None \<Rightarrow> failed
                   | Some messages \<Rightarrow>
                       agent_loop e tenant' (req_attachments req) 0
                         \<lparr> conversation =
                             SystemMsg (t_id tenant') (t_name tenant') (t_unit tenant')
                               (photo_count (req_attachments req))
                             # map ChatMsg (recent_messages messages),
                           allToolCalls = [], allToolResults = [],
                           work_orders_file = workOrders, clock_reads = reads,
                           judge_calls = [], dispatched = [] \<rparr>)))"

text \<open>
  What a successful creation leaves: the collection read with one record appended, which
  carries the identifier and the name of the given contractor.
\<close>

definition stored_with_contractor ::
  "contractor \<Rightarrow> work_order list \<Rightarrow> work_order list \<times> (tool_error + order_response) \<Rightarrow> bool" where
  "stored_with_contractor c before res =
     (case snd res of
        Inl _ \<Rightarrow> False
      | Inr r \<Rightarrow>
          length (fst res) = Suc (length before) \<and> take (length before) (fst res) = before \<and>
          contractor_id (last (fst res)) = Some (c_id c) \<and>
          contractor_name (last (fst res)) = Some (c_name c))"

section \<open>The work-order life cycle as a sequence of operations\<close>







section \<open>Tool calls that differ in the tenant identifier only\<close>

text \<open>
  A dispatched call is bound to a tenant when it is not a call of one of the three tools
  that take a \<open>tenant_id\<close>, or the \<open>tenant_id\<close> handed to the tool is that tenant's.
\<close>

definition tenant_bound :: "js_string \<Rightarrow> js_string \<times> tool_args \<Rightarrow> bool" where
  "tenant_bound tid d =
     (if fst d = lit ''check_similar_issues'' \<or> fst d = lit ''create_work_order'' \<or>
         fst d = lit ''get_work_orders''
      then arg_tenant_id (snd d) = Some tid else True)"

text \<open>
  Erasing the \<open>tenant_id\<close> the reasoning engine wrote into tool arguments, wherever the
  arguments are kept: two replies, conversations or turns are the same up to that
  argument when their erasures are equal.
\<close>

definition erase_args :: "tool_args \<Rightarrow> tool_args" where
  "erase_args a = a\<lparr>arg_tenant_id := None\<rparr>"

definition erase_call :: "tool_call \<Rightarrow> tool_call" where
  "erase_call tc = tc\<lparr>tc_arguments := map_option erase_args (tc_arguments tc)\<rparr>"

definition erase_reply :: "assistant_message \<Rightarrow> assistant_message" where
  "erase_reply m = m\<lparr>am_tool_calls := map_option (map erase_call) (am_tool_calls m)\<rparr>"

fun erase_msg :: "message \<Rightarrow> message" where
  "erase_msg (AssistantMsg m) = AssistantMsg (erase_reply m)"
| "erase_msg (SystemMsg a b c n) = SystemMsg a b c n"
| "erase_msg (ChatMsg m) = ChatMsg m"
| "erase_msg (ToolMsg i n r) = ToolMsg i n r"

fun erase_outcome :: "llm_outcome \<Rightarrow> llm_outcome" where
  "erase_outcome LlmFailed = LlmFailed"
| "erase_outcome (LlmReply m) = LlmReply (erase_reply m)"

fun erase_response :: "http_response \<Rightarrow> http_response" where
  "erase_response (Ok200 m tcs rs) = Ok200 (erase_reply m) (map erase_call tcs) rs"
| "erase_response (Error500 msg) = Error500 msg"

definition erase_state :: "turn_state \<Rightarrow> turn_state" where
  "erase_state st =
     st\<lparr>conversation := map erase_msg (conversation st),
        allToolCalls := map erase_call (allToolCalls st),
        dispatched := map (\<lambda>d. (fst d, erase_args (snd d))) (dispatched st)\<rparr>"

definition erase_turn :: "http_response \<times> turn_state \<times> nat \<Rightarrow> http_response \<times> turn_state \<times> nat" where
  "erase_turn r = (erase_response (fst r), erase_state (fst (snd r)), snd (snd r))"

section \<open>Example data\<close>

text \<open>Case tables for examples whose strings are all ASCII, where they are not consulted.\<close>

definition plain :: "js_string \<Rightarrow> js_string" where
  "plain s = s"

text \<open>
  A fragment of the case tables, enough for a name that begins with a capital E with an
  acute accent (code unit 201, in lower case 233).
\<close>

definition latin_lower :: "js_string \<Rightarrow> js_string" where
  "latin_lower s = map (\<lambda>c. if c = 201 then 233 else lower_unit c) s"

definition emile :: contractor where
  "emile = \<lparr> c_id = lit ''contractor-009'', c_name = 201 # lit ''mile Gas'',
             c_service = Some (lit ''gas'') \<rparr>"

definition plumber :: contractor where
  "plumber = \<lparr> c_id = lit ''contractor-001'', c_name = lit ''Bob Plumbing'',
               c_service = Some (lit ''plumbing'') \<rparr>"

definition sparky :: contractor where
  "sparky = \<lparr> c_id = lit ''contractor-002'', c_name = lit ''Volt Electric'',
              c_service = Some (lit ''electrical'') \<rparr>"

definition tap_order :: work_order where
  "tap_order = \<lparr>
     wo_id = lit ''wo-1'', tenant_id = Some (lit ''tenant-001''), tenantId = None,
     issue_summary = Some (lit ''kitchen tap is dripping''), issueDescription = None,
     contractor_id = Some (lit ''contractor-001''), contractorId = None,
     contractor_name = Some (lit ''Bob Plumbing''), trade = Some (lit ''plumbing''),
     priority = Some (lit ''High''), status = Some (lit ''assigned''), created_at = Some 100,
     createdAt = None, updated_at = None, resolved_at = None, resolution_notes = None,
     attachments = Some [\<lparr> att_id = lit ''a1'', att_url = lit ''data:x'',
                           att_filename = lit ''tap.jpg'',
                           att_mediaType = lit ''image/jpeg'' \<rparr>] \<rparr>"

definition alarm_order :: work_order where
  "alarm_order = \<lparr>
     wo_id = lit ''wo-2'', tenant_id = None, tenantId = Some (lit ''tenant-002''),
     issue_summary = None, issueDescription = Some (lit ''smoke alarm is beeping''),
     contractor_id = None, contractorId = Some (lit ''contractor-002''),
     contractor_name = None, trade = None,
     priority = Some (lit ''Low''), status = Some (lit ''solved''), created_at = None,
     createdAt = Some 50, updated_at = Some 60, resolved_at = Some 60,
     resolution_notes = None, attachments = None \<rparr>"

definition alice :: tenant where
  "alice = \<lparr> t_id = lit ''tenant-001'', t_name = lit ''Alice'', t_unit = lit ''1A'' \<rparr>"

definition bruno :: tenant where
  "bruno = \<lparr> t_id = lit ''tenant-002'', t_name = lit ''Bruno'', t_unit = lit ''2B'' \<rparr>"

definition no_args :: tool_args where
  "no_args = \<lparr> arg_query = None, arg_trade = None, arg_tenant_id = None,
     arg_new_issue_description = None, arg_issue_summary = None, arg_contractor_id = None,
     arg_priority = None, arg_attachments = None, arg_status_filter = None,
     arg_work_order_id = None, arg_status = None, arg_resolution_notes = None \<rparr>"

text \<open>
  Two engines that ask for work orders in every reply and differ in the \<open>tenant_id\<close> they
  write: the one names a tenant that does not exist, the other the second tenant.
\<close>

definition list_call :: tool_call where
  "list_call = \<lparr> tc_id = lit ''call-1'', tc_name = lit ''get_work_orders'',
                  tc_arguments = Some (no_args\<lparr>arg_tenant_id := Some (lit ''tenant-999'')\<rparr>) \<rparr>"

definition busy_llm :: "message list \<Rightarrow> llm_outcome" where
  "busy_llm conv = LlmReply \<lparr> am_content = None, am_tool_calls = Some [list_call] \<rparr>"

definition prying_call :: tool_call where
  "prying_call = \<lparr> tc_id = lit ''call-1'', tc_name = lit ''get_work_orders'',
                    tc_arguments = Some (no_args\<lparr>arg_tenant_id := Some (lit ''tenant-002'')\<rparr>) \<rparr>"

definition prying_llm :: "message list \<Rightarrow> llm_outcome" where
  "prying_llm conv = LlmReply \<lparr> am_content = None, am_tool_calls = Some [prying_call] \<rparr>"

text \<open>Four secondary engines: one fails, three return a verdict.\<close>

definition failing_judge :: judge where
  "failing_judge d es = JudgeFailed"

definition bogus_judge :: judge where
  "bogus_judge d es =
     JudgeVerdict \<lparr> is_similar = True, matching_order_id = Some (lit ''wo-999''),
                    reasoning = lit ''same tap'' \<rparr>"

definition stray_judge :: judge where
  "stray_judge d es =
     JudgeVerdict \<lparr> is_similar = False, matching_order_id = Some (lit ''wo-999''),
                    reasoning = lit ''different'' \<rparr>"

definition empty_id_judge :: judge where
  "empty_id_judge d es =
     JudgeVerdict \<lparr> is_similar = True, matching_order_id = Some [],
                    reasoning = lit ''same tap'' \<rparr>"

definition alice_request :: chat_request where
  "alice_request =
     \<lparr> req_messages = Some [\<lparr> m_role = lit ''user'', m_content = lit ''my orders?'' \<rparr>],
       req_tenantId = Some (lit ''tenant-001''), req_attachments = None \<rparr>"

definition busy_env :: env where
  "busy_env = \<lparr> llm = busy_llm, judge_of = failing_judge, clock = (\<lambda>k. 1000 + k),
                 unicode_lower = plain,
                 tenants = Some [alice, bruno], contractors_file = [plumber, sparky],
                 knowledge_file = None \<rparr>"

definition hello_request :: chat_request where
  "hello_request = \<lparr> req_messages = Some [\<lparr> m_role = lit ''user'', m_content = lit ''hello'' \<rparr>],
                      req_tenantId = Some (lit ''tenant-404''), req_attachments = None \<rparr>"

text \<open>An engine that answers at once, without tool calls.\<close>

definition quiet_llm :: "message list \<Rightarrow> llm_outcome" where
  "quiet_llm conv =
     LlmReply \<lparr> am_content = Some (lit ''How can I help?''), am_tool_calls = None \<rparr>"

definition quiet_env :: env where
  "quiet_env = \<lparr> llm = quiet_llm, judge_of = failing_judge, clock = (\<lambda>k. 1000 + k),
                  unicode_lower = plain,
                  tenants = Some [alice, bruno], contractors_file = [plumber, sparky],
                  knowledge_file = None \<rparr>"

definition example_articles :: "article list" where
  "example_articles =
     [\<lparr> a_id = Some (lit ''k1''), title = Some (lit ''Smoke alarm''),
         content = Some (lit ''Replace the battery''), tags = Some [lit ''alarm''] \<rparr>,
      \<lparr> a_id = Some (lit ''k2''), title = None,
         content = Some (lit ''Reset the boiler alarm by pressing''), tags = None \<rparr>,
      \<lparr> a_id = Some (lit ''k3''), title = Some (lit ''Boiler''),
         content = Some (lit ''alarm codes''), tags = None \<rparr>,
      \<lparr> a_id = Some (lit ''k4''), title = Some (lit ''Alarm panel''),
         content = Some (lit ''wiring''), tags = None \<rparr>,
      \<lparr> a_id = Some (lit ''k5''), title = Some (lit ''Taps''),
         content = Some (lit ''washer''), tags = None \<rparr>,
      \<lparr> a_id = Some (lit ''k6''), title = None,
         content = Some (lit ''alarm again''), tags = None \<rparr>]"

definition empty_state :: "work_order list \<Rightarrow> turn_state" where
  "empty_state wos = \<lparr> conversation = [], allToolCalls = [], allToolResults = [],
                        work_orders_file = wos, clock_reads = 0, judge_calls = [],
                        dispatched = [] \<rparr>"

section \<open>Helper facts\<close>

lemma unat_of_char: "unat (of_char c :: 16 word) = of_char c"
proof -
  have "(of_char c :: 16 word) = word_of_nat (of_char c)"
    by (simp only: of_nat_of_char)
  then have "unat (of_char c :: 16 word) = of_char c mod 2 ^ 16"
    by (simp add: unat_of_nat)
  moreover have "(of_char c :: nat) < 2 ^ 16"
  proof -
    have "(of_char c :: nat) < 256" by (rule nat_of_char_less_256)
    also have "(256 :: nat) < 2 ^ 16" by simp
    finally show ?thesis .
  qed
  ultimately show ?thesis by simp
qed

lemma of_char_unit_eq_iff: "(of_char c :: 16 word) = of_char d \<longleftrightarrow> c = d"
proof
  assume "(of_char c :: 16 word) = of_char d"
  then have "unat (of_char c :: 16 word) = unat (of_char d :: 16 word)" by simp
  then show "c = d" by (simp add: unat_of_char)
qed simp

lemma lit_eq_iff [simp]: "lit s = lit t \<longleftrightarrow> s = t"
  by (simp add: lit_def inj_map_eq_map inj_on_def of_char_unit_eq_iff)

lemma lit_empty [simp]: "lit s = [] \<longleftrightarrow> s = []" "[] = lit s \<longleftrightarrow> s = []"
  by (auto simp: lit_def)

lemma findIndex_None: "findIndex p xs = None \<longleftrightarrow> (\<forall>x \<in> set xs. \<not> p x)"
  by (induction xs) auto

lemma findIndex_Some:
  "findIndex p xs = Some i \<Longrightarrow> i < length xs \<and> p (xs ! i) \<and> (\<forall>j < i. \<not> p (xs ! j))"
proof (induction xs arbitrary: i)
  case Nil
  then show ?case by simp
next
  case (Cons x xs)
  show ?case
  proof (cases "p x")
    case True
    with Cons.prems show ?thesis by simp
  next
    case False
    with Cons.prems obtain k where k: "findIndex p xs = Some k" "i = Suc k"
      by auto
    from Cons.IH [OF k(1)] have ih: "k < length xs" "p (xs ! k)" "\<forall>j < k. \<not> p (xs ! j)"
      by simp_all
    have "\<forall>j < Suc k. \<not> p ((x # xs) ! j)"
    proof (intro allI impI)
      fix j assume "j < Suc k"
      then show "\<not> p ((x # xs) ! j)"
        using False ih(3) by (cases j) simp_all
    qed
    with ih k show ?thesis by simp
  qed
qed

lemma findIndex_exists: "\<exists>x \<in> set xs. p x \<Longrightarrow> \<exists>i. findIndex p xs = Some i"
  using findIndex_None [of p xs] by (cases "findIndex p xs") auto

lemma js_includes_iff: "js_includes s t \<longleftrightarrow> (\<exists>ps ss. s = ps @ t @ ss)"
proof (induction s)
  case Nil
  then show ?case by auto
next
  case (Cons c cs)
  show ?case
  proof
    assume "js_includes (c # cs) t"
    then consider "prefix t (c # cs)" | "js_includes cs t" by auto
    then show "\<exists>ps ss. c # cs = ps @ t @ ss"
    proof cases
      case 1
      then obtain ss where "c # cs = t @ ss" by (auto simp: prefix_def)
      then have "c # cs = [] @ t @ ss" by simp
      then show ?thesis by blast
    next
      case 2
      with Cons.IH obtain ps ss where "cs = ps @ t @ ss" by blast
      then have "c # cs = (c # ps) @ t @ ss" by simp
      then show ?thesis by blast
    qed
  next
    assume "\<exists>ps ss. c # cs = ps @ t @ ss"
    then obtain ps ss where e: "c # cs = ps @ t @ ss" by blast
    show "js_includes (c # cs) t"
    proof (cases ps)
      case Nil
      with e have "prefix t (c # cs)" by (simp add: prefix_def)
      then show ?thesis by simp
    next
      case (Cons p ps')
      with e have "cs = ps' @ t @ ss" by simp
      with Cons.IH have "js_includes cs t" by blast
      then show ?thesis by simp
    qed
  qed
qed

lemma find_contractor_cases:
  "find_contractor ul cs cid = Some c \<Longrightarrow> c \<in> set cs"
  by (auto simp: find_contractor_def find_Some_iff split: option.splits)

lemma create_stores:
  "find_contractor ul cs cid = Some c \<Longrightarrow>
   stored_with_contractor c wos (create_work_order ul ms now cs wos t s (Some cid) p a)"
  by (simp add: create_work_order_def stored_with_contractor_def Let_def)







lemma check_similar_issues_no_active:
  "filter (is_active_for ul tid) wos = [] \<Longrightarrow>
   check_similar_issues ul judge wos tid d =
     (\<lparr> has_similar = False, similar_order = None, sr_reasoning = None, error = None,
        active_orders_count = Some 0, existing_issues = None,
        message = lit ''No active work orders found for this tenant. Safe to create a new work order.'' \<rparr>,
      [])"
  by (simp add: check_similar_issues_def)

lemma compare_not_claimed:
  "judge d ex = JudgeVerdict v \<Longrightarrow>
   \<not> is_similar v \<or> matching_order_id v = None \<or> matching_order_id v = Some [] \<Longrightarrow>
   compareIssuesWithLLM judge d ex
     = Inr \<lparr> cmp_has_similar = False, cmp_similar_order = None, cmp_reasoning = reasoning v \<rparr>"
  by (auto simp: compareIssuesWithLLM_def)

lemma compare_unresolved:
  assumes "judge d (map to_existing_issue act) = JudgeFailed \<or>
         (\<exists>v mid. judge d (map to_existing_issue act) = JudgeVerdict v \<and>
            is_similar v \<and> matching_order_id v = Some mid \<and> mid \<noteq> [] \<and>
            mid \<notin> wo_id ` set act)"
  shows "compareIssuesWithLLM judge d (map to_existing_issue act) = Inl Thrown \<or>
     (\<exists>c. compareIssuesWithLLM judge d (map to_existing_issue act) = Inr c \<and>
          cmp_has_similar c \<and> cmp_similar_order c = None)"
  using assms
proof
  assume "judge d (map to_existing_issue act) = JudgeFailed"
  then show ?thesis by (simp add: compareIssuesWithLLM_def)
next
  assume "\<exists>v mid. judge d (map to_existing_issue act) = JudgeVerdict v \<and> is_similar v \<and>
     matching_order_id v = Some mid \<and> mid \<noteq> [] \<and> mid \<notin> wo_id ` set act"
  then obtain v mid where v: "judge d (map to_existing_issue act) = JudgeVerdict v" "is_similar v"
    "matching_order_id v = Some mid" "mid \<noteq> []" "mid \<notin> wo_id ` set act" by blast
  from v(5) have "List.find (\<lambda>e. Some (e_id e) = Some mid) (map to_existing_issue act) = None"
    by (auto simp: find_None_iff to_existing_issue_def)
  with v show ?thesis by (simp add: compareIssuesWithLLM_def)
qed

lemma filter_score_sort:
  "filter (\<lambda>r. score r = k) (sort_key (\<lambda>r. - int (score r)) xs) = filter (\<lambda>r. score r = k) xs"
proof -
  have "filter (\<lambda>r. - int (score r) = - int k) (sort_key (\<lambda>r. - int (score r)) xs)
      = filter (\<lambda>r. - int (score r) = - int k) xs"
    by (rule sort_key_stable)
  then show ?thesis by simp
qed

lemma filter_score_positive:
  "prefix (filter (\<lambda>r. score r = k) (filter (\<lambda>r. score r > 0) xs)) (filter (\<lambda>r. score r = k) xs)"
proof (cases "k = 0")
  case True
  then have "filter (\<lambda>r. score r = k) (filter (\<lambda>r. score r > 0) xs) = []"
    by (auto simp: filter_empty_conv)
  then show ?thesis by simp
next
  case False
  then have "filter (\<lambda>r. score r = k) (filter (\<lambda>r. score r > 0) xs) = filter (\<lambda>r. score r = k) xs"
    by (auto intro: filter_cong)
  then show ?thesis by simp
qed

lemma top3_properties:
  fixes xs :: "scored_article list"
  defines "rs \<equiv> take 3 (sort_key (\<lambda>r. - int (score r)) (filter (\<lambda>r. score r > 0) xs))"
  shows "length rs \<le> 3"
    and "\<forall>r \<in> set rs. 0 < score r"
    and "sorted_wrt (\<lambda>a b. score b \<le> score a) rs"
    and "prefix (filter (\<lambda>r. score r = k) rs) (filter (\<lambda>r. score r = k) xs)"
proof -
  let ?ys = "sort_key (\<lambda>r. - int (score r)) (filter (\<lambda>r. score r > 0) xs)"
  show "length rs \<le> 3" by (simp add: rs_def)
  have "set rs \<subseteq> set ?ys" unfolding rs_def by (rule set_take_subset)
  then show "\<forall>r \<in> set rs. 0 < score r" by auto
  have "sorted (map (\<lambda>r. - int (score r)) ?ys)" by (rule sorted_sort_key)
  then have "sorted_wrt (\<lambda>a b. score b \<le> score a) ?ys"
    by (simp add: sorted_map)
  then show "sorted_wrt (\<lambda>a b. score b \<le> score a) rs"
    unfolding rs_def by (rule sorted_wrt_take)
  have "prefix rs ?ys" unfolding rs_def by (rule take_is_prefix)
  then have "prefix (filter (\<lambda>r. score r = k) rs) (filter (\<lambda>r. score r = k) ?ys)"
    by (rule filter_mono_prefix)
  then have "prefix (filter (\<lambda>r. score r = k) rs)
      (filter (\<lambda>r. score r = k) (filter (\<lambda>r. score r > 0) xs))"
    by (simp add: filter_score_sort)
  then show "prefix (filter (\<lambda>r. score r = k) rs) (filter (\<lambda>r. score r = k) xs)"
    using filter_score_positive [of k xs] by (rule prefix_order.trans)
qed

lemma run_tool_calls_parsed:
  "\<forall>tc \<in> set tcs. tc_arguments tc \<noteq> None \<Longrightarrow> \<exists>st'. run_tool_calls e t a tcs st = Inr st'"
proof (induction tcs arbitrary: st)
  case Nil
  then show ?case by simp
next
  case (Cons tc tcs)
  then obtain args where args: "tc_arguments tc = Some args" by auto
  obtain result st1 where r: "run_tool e t a (tc_name tc) args st = (result, st1)"
    by (cases "run_tool e t a (tc_name tc) args st")
  from Cons.prems have "\<forall>x \<in> set tcs. tc_arguments x \<noteq> None" by simp
  from Cons.IH [OF this] show ?case
    by (simp add: args r Let_def)
qed

lemma agent_loop_fails_when_always_tools:
  assumes H: "\<forall>conv m. llm e conv = LlmReply m \<longrightarrow> am_tool_calls m \<noteq> None"
  shows "(\<exists>msg. fst (agent_loop e t a n st) = Error500 msg) \<and>
         (n \<le> MAX_LOOPS \<longrightarrow> snd (snd (agent_loop e t a n st)) \<le> MAX_LOOPS)"
  using H
proof (induction e t a n st rule: agent_loop.induct)
  case (1 e t a n st)
  show ?case
  proof (cases "n < MAX_LOOPS")
    case False
    then show ?thesis by (subst (1 2) agent_loop.simps) simp
  next
    case True
    show ?thesis
    proof (cases "llm e (conversation st)")
      case LlmFailed
      with True show ?thesis by (subst (1 2) agent_loop.simps) simp
    next
      case (LlmReply m)
      with "1.prems" obtain tcs where tcs: "am_tool_calls m = Some tcs" by auto
      show ?thesis
      proof (cases "run_tool_calls e t a tcs
          (st\<lparr>conversation := conversation st @ [AssistantMsg m],
             allToolCalls := allToolCalls st @ tcs\<rparr>)")
        case (Inl st')
        with True LlmReply tcs show ?thesis by (subst (1 2) agent_loop.simps) simp
      next
        case (Inr st')
        from "1.IH" [OF True LlmReply tcs Inr "1.prems"] True
        have "(\<exists>msg. fst (agent_loop e t a (n + 1) st') = Error500 msg) \<and>
              snd (snd (agent_loop e t a (n + 1) st')) \<le> MAX_LOOPS"
          by simp
        with True LlmReply tcs Inr show ?thesis by (subst (1 2) agent_loop.simps) simp
      qed
    qed
  qed
qed

lemma agent_loop_reaches_cap:
  assumes nf: "\<forall>conv. llm e conv \<noteq> LlmFailed"
    and H: "\<forall>conv m. llm e conv = LlmReply m \<longrightarrow> am_tool_calls m \<noteq> None"
    and P: "\<forall>conv m tcs. llm e conv = LlmReply m \<and> am_tool_calls m = Some tcs \<longrightarrow>
              (\<forall>tc \<in> set tcs. tc_arguments tc \<noteq> None)"
  shows "n \<le> MAX_LOOPS \<longrightarrow>
         fst (agent_loop e t a n st) = Error500 (lit ''Agent loop limit exceeded'') \<and>
         snd (snd (agent_loop e t a n st)) = MAX_LOOPS"
  using nf H P
proof (induction e t a n st rule: agent_loop.induct)
  case (1 e t a n st)
  show ?case
  proof (cases "n < MAX_LOOPS")
    case False
    then show ?thesis by (subst (1 2) agent_loop.simps) simp
  next
    case True
    from "1.prems"(1) obtain m where m: "llm e (conversation st) = LlmReply m"
      by (cases "llm e (conversation st)") auto
    with "1.prems"(2) obtain tcs where tcs: "am_tool_calls m = Some tcs" by auto
    from "1.prems"(3) m tcs have "\<forall>tc \<in> set tcs. tc_arguments tc \<noteq> None" by blast
    from run_tool_calls_parsed [OF this]
    obtain st' where st': "run_tool_calls e t a tcs
          (st\<lparr>conversation := conversation st @ [AssistantMsg m],
             allToolCalls := allToolCalls st @ tcs\<rparr>) = Inr st'" by blast
    from "1.IH" [OF True m tcs st' "1.prems"] True
    have "fst (agent_loop e t a (n + 1) st') = Error500 (lit ''Agent loop limit exceeded'') \<and>
          snd (snd (agent_loop e t a (n + 1) st')) = MAX_LOOPS"
      by simp
    with True m tcs st' show ?thesis by (subst (1 2) agent_loop.simps) simp
  qed
qed

lemma session_tenant_first:
  "\<forall>t \<in> set (t0 # rest). Some (t_id t) \<noteq> tid \<Longrightarrow> session_tenant (t0 # rest) tid = Some t0"
proof -
  assume "\<forall>t \<in> set (t0 # rest). Some (t_id t) \<noteq> tid"
  then have "List.find (\<lambda>t. Some (t_id t) = tid) (t0 # rest) = None"
    by (simp only: find_None_iff) blast
  then show ?thesis by (simp add: session_tenant_def)
qed

lemma session_tenant_own_id: "session_tenant (t0 # rest) (Some (t_id t0)) = Some t0"
  by (simp add: session_tenant_def)

lemma run_tool_bound:
  "list_all (tenant_bound (t_id t)) (dispatched st) \<Longrightarrow>
   list_all (tenant_bound (t_id t)) (dispatched (snd (run_tool e t a name args st)))"
  by (simp add: run_tool_def tenant_bound_def split: prod.splits)

lemma run_tool_calls_bound:
  "list_all (tenant_bound (t_id t)) (dispatched st) \<Longrightarrow>
   list_all (tenant_bound (t_id t)) (dispatched (reached (run_tool_calls e t a tcs st)))"
proof (induction tcs arbitrary: st)
  case Nil
  then show ?case by (simp add: reached_def)
next
  case (Cons tc tcs)
  show ?case
  proof (cases "tc_arguments tc")
    case None
    with Cons.prems show ?thesis by (simp add: reached_def)
  next
    case (Some args)
    obtain result st1 where r: "run_tool e t a (tc_name tc) args st = (result, st1)"
      by (cases "run_tool e t a (tc_name tc) args st")
    from run_tool_bound [OF Cons.prems, of e a "tc_name tc" args] r
    have "list_all (tenant_bound (t_id t)) (dispatched st1)" by simp
    then have "list_all (tenant_bound (t_id t))
       (dispatched (st1\<lparr>allToolResults := allToolResults st1 @ [(tc_name tc, result)],
                        conversation := conversation st1
                          @ [ToolMsg (tc_id tc) (tc_name tc) result]\<rparr>))"
      by simp
    from Cons.IH [OF this] show ?thesis
      by (simp add: Some r Let_def)
  qed
qed

lemma agent_loop_bound:
  "list_all (tenant_bound (t_id t)) (dispatched st) \<Longrightarrow>
   list_all (tenant_bound (t_id t)) (dispatched (fst (snd (agent_loop e t a n st))))"
proof (induction e t a n st rule: agent_loop.induct)
  case (1 e t a n st)
  show ?case
  proof (cases "n < MAX_LOOPS")
    case False
    with "1.prems" show ?thesis by (subst agent_loop.simps) simp
  next
    case True
    show ?thesis
    proof (cases "llm e (conversation st)")
      case LlmFailed
      with True "1.prems" show ?thesis by (subst agent_loop.simps) simp
    next
      case (LlmReply m)
      show ?thesis
      proof (cases "am_tool_calls m")
        case None
        with True LlmReply "1.prems" show ?thesis by (subst agent_loop.simps) simp
      next
        case (Some tcs)
        let ?st1 = "st\<lparr>conversation := conversation st @ [AssistantMsg m],
                        allToolCalls := allToolCalls st @ tcs\<rparr>"
        from "1.prems" have p: "list_all (tenant_bound (t_id t)) (dispatched ?st1)" by simp
        note b = run_tool_calls_bound [OF p, of e a tcs]
        show ?thesis
        proof (cases "run_tool_calls e t a tcs ?st1")
          case (Inl st')
          with b True LlmReply Some show ?thesis
            by (subst agent_loop.simps) (simp add: reached_def)
        next
          case (Inr st')
          with b have "list_all (tenant_bound (t_id t)) (dispatched st')"
            by (simp add: reached_def)
          from "1.IH" [OF True LlmReply Some Inr this] True LlmReply Some Inr
          show ?thesis by (subst agent_loop.simps) simp
        qed
      qed
    qed
  qed
qed

lemma chatHandler_bound:
  "tenants e = Some ts \<Longrightarrow> session_tenant ts (req_tenantId req) = Some t \<Longrightarrow>
   list_all (tenant_bound (t_id t)) (dispatched (fst (snd (chatHandler e req wos reads))))"
  by (simp add: chatHandler_def Let_def agent_loop_bound split: option.splits)

lemma erase_args_fields:
  assumes "erase_args a = erase_args b"
  shows "arg_query a = arg_query b" "arg_trade a = arg_trade b"
    "arg_new_issue_description a = arg_new_issue_description b"
    "arg_issue_summary a = arg_issue_summary b" "arg_contractor_id a = arg_contractor_id b"
    "arg_priority a = arg_priority b" "arg_attachments a = arg_attachments b"
    "arg_status_filter a = arg_status_filter b" "arg_work_order_id a = arg_work_order_id b"
    "arg_status a = arg_status b" "arg_resolution_notes a = arg_resolution_notes b"
    "a\<lparr>arg_tenant_id := x\<rparr> = b\<lparr>arg_tenant_id := x\<rparr>"
proof -
  have f: "\<And>sel. sel (erase_args a) = sel (erase_args b)" using assms by simp
  show "arg_query a = arg_query b" using f [of arg_query] by (simp add: erase_args_def)
  show "arg_trade a = arg_trade b" using f [of arg_trade] by (simp add: erase_args_def)
  show "arg_new_issue_description a = arg_new_issue_description b"
    using f [of arg_new_issue_description] by (simp add: erase_args_def)
  show "arg_issue_summary a = arg_issue_summary b"
    using f [of arg_issue_summary] by (simp add: erase_args_def)
  show "arg_contractor_id a = arg_contractor_id b"
    using f [of arg_contractor_id] by (simp add: erase_args_def)
  show "arg_priority a = arg_priority b" using f [of arg_priority] by (simp add: erase_args_def)
  show "arg_attachments a = arg_attachments b"
    using f [of arg_attachments] by (simp add: erase_args_def)
  show "arg_status_filter a = arg_status_filter b"
    using f [of arg_status_filter] by (simp add: erase_args_def)
  show "arg_work_order_id a = arg_work_order_id b"
    using f [of arg_work_order_id] by (simp add: erase_args_def)
  show "arg_status a = arg_status b" using f [of arg_status] by (simp add: erase_args_def)
  show "arg_resolution_notes a = arg_resolution_notes b"
    using f [of arg_resolution_notes] by (simp add: erase_args_def)
  have "a\<lparr>arg_tenant_id := x\<rparr> = (erase_args a)\<lparr>arg_tenant_id := x\<rparr>"
    "b\<lparr>arg_tenant_id := x\<rparr> = (erase_args b)\<lparr>arg_tenant_id := x\<rparr>"
    by (simp_all add: erase_args_def)
  with assms show "a\<lparr>arg_tenant_id := x\<rparr> = b\<lparr>arg_tenant_id := x\<rparr>" by simp
qed

lemma erase_args_idem [simp]: "erase_args (erase_args a) = erase_args a"
  by (simp add: erase_args_def)

lemma erase_state_eq_iff:
  "erase_state st = erase_state st' \<longleftrightarrow>
     map erase_msg (conversation st) = map erase_msg (conversation st') \<and>
     map erase_call (allToolCalls st) = map erase_call (allToolCalls st') \<and>
     allToolResults st = allToolResults st' \<and>
     work_orders_file st = work_orders_file st' \<and>
     clock_reads st = clock_reads st' \<and>
     judge_calls st = judge_calls st' \<and>
     map (\<lambda>d. (fst d, erase_args (snd d))) (dispatched st)
       = map (\<lambda>d. (fst d, erase_args (snd d))) (dispatched st')"
proof
  assume a: "erase_state st = erase_state st'"
  have f: "\<And>sel. sel (erase_state st) = sel (erase_state st')" using a by simp
  show "map erase_msg (conversation st) = map erase_msg (conversation st') \<and>
     map erase_call (allToolCalls st) = map erase_call (allToolCalls st') \<and>
     allToolResults st = allToolResults st' \<and>
     work_orders_file st = work_orders_file st' \<and>
     clock_reads st = clock_reads st' \<and>
     judge_calls st = judge_calls st' \<and>
     map (\<lambda>d. (fst d, erase_args (snd d))) (dispatched st)
       = map (\<lambda>d. (fst d, erase_args (snd d))) (dispatched st')"
    using f [of conversation] f [of allToolCalls] f [of allToolResults] f [of work_orders_file]
      f [of clock_reads] f [of judge_calls] f [of dispatched]
    by (simp add: erase_state_def)
next
  assume "map erase_msg (conversation st) = map erase_msg (conversation st') \<and>
     map erase_call (allToolCalls st) = map erase_call (allToolCalls st') \<and>
     allToolResults st = allToolResults st' \<and>
     work_orders_file st = work_orders_file st' \<and>
     clock_reads st = clock_reads st' \<and>
     judge_calls st = judge_calls st' \<and>
     map (\<lambda>d. (fst d, erase_args (snd d))) (dispatched st)
       = map (\<lambda>d. (fst d, erase_args (snd d))) (dispatched st')"
  then show "erase_state st = erase_state st'"
    by (intro turn_state.equality) (simp_all add: erase_state_def)
qed

lemma run_tool_same_up_to_tenant_id:
  assumes s: "erase_state st = erase_state st'" and a: "erase_args args = erase_args args'"
  shows "fst (run_tool e t atts name args st) = fst (run_tool e t atts name args' st') \<and>
         erase_state (snd (run_tool e t atts name args st))
           = erase_state (snd (run_tool e t atts name args' st'))"
proof -
  note f = erase_args_fields [OF a]
  from s have w: "work_orders_file st = work_orders_file st'"
    "clock_reads st = clock_reads st'" "judge_calls st = judge_calls st'"
    "allToolResults st = allToolResults st'"
    "map erase_msg (conversation st) = map erase_msg (conversation st')"
    "map erase_call (allToolCalls st) = map erase_call (allToolCalls st')"
    "map (\<lambda>d. (fst d, erase_args (snd d))) (dispatched st)
       = map (\<lambda>d. (fst d, erase_args (snd d))) (dispatched st')"
    by (simp_all add: erase_state_eq_iff)
  show ?thesis
    unfolding erase_state_eq_iff
    by (simp add: run_tool_def w f a split: prod.splits sum.splits)
qed

lemma run_tool_calls_same_up_to_tenant_id:
  assumes "erase_state st = erase_state st'" and "map erase_call tcs = map erase_call tcs'"
  shows "map_sum erase_state erase_state (run_tool_calls e t atts tcs st)
           = map_sum erase_state erase_state (run_tool_calls e t atts tcs' st')"
  using assms
proof (induction tcs arbitrary: tcs' st st')
  case Nil
  then show ?case by simp
next
  case (Cons tc tcs)
  from Cons.prems(2) obtain tc' tcs1 where t: "tcs' = tc' # tcs1"
    and c: "erase_call tc = erase_call tc'" and r: "map erase_call tcs = map erase_call tcs1"
    by (cases tcs') auto
  have f: "\<And>sel. sel (erase_call tc) = sel (erase_call tc')" using c by simp
  from f [of tc_id] f [of tc_name] f [of tc_arguments]
  have i: "tc_id tc = tc_id tc'" and n: "tc_name tc = tc_name tc'"
    and g: "map_option erase_args (tc_arguments tc) = map_option erase_args (tc_arguments tc')"
    by (simp_all add: erase_call_def)
  show ?case
  proof (cases "tc_arguments tc")
    case None
    with g have "tc_arguments tc' = None" by simp
    with None Cons.prems(1) t show ?thesis by simp
  next
    case (Some args)
    with g obtain args' where a': "tc_arguments tc' = Some args'"
      and ea: "erase_args args = erase_args args'" by (cases "tc_arguments tc'") auto
    obtain r1 s1 where r1: "run_tool e t atts (tc_name tc) args st = (r1, s1)"
      by (cases "run_tool e t atts (tc_name tc) args st")
    obtain r2 s2 where r2: "run_tool e t atts (tc_name tc) args' st' = (r2, s2)"
      by (cases "run_tool e t atts (tc_name tc) args' st'")
    from run_tool_same_up_to_tenant_id [OF Cons.prems(1) ea, of e t atts "tc_name tc"] r1 r2
    have rr: "r1 = r2" and ss: "erase_state s1 = erase_state s2" by simp_all
    from ss have "erase_state
        (s1\<lparr>allToolResults := allToolResults s1 @ [(tc_name tc, r1)],
            conversation := conversation s1 @ [ToolMsg (tc_id tc) (tc_name tc) r1]\<rparr>)
      = erase_state
        (s2\<lparr>allToolResults := allToolResults s2 @ [(tc_name tc, r2)],
            conversation := conversation s2 @ [ToolMsg (tc_id tc) (tc_name tc) r2]\<rparr>)"
      by (simp add: erase_state_eq_iff rr)
    from Cons.IH [OF this r] show ?thesis
      by (simp add: Some a' t r1 r2 i [symmetric] n [symmetric] Let_def)
  qed
qed

lemma run_tool_other_engine: "run_tool (e\<lparr>llm := l\<rparr>) = run_tool e"
  by (intro ext) (simp add: run_tool_def)

lemma run_tool_calls_other_engine:
  "run_tool_calls (e\<lparr>llm := l\<rparr>) t atts tcs st = run_tool_calls e t atts tcs st"
  by (induction tcs arbitrary: st) (simp_all add: run_tool_other_engine split: option.splits)

lemma agent_loop_same_up_to_tenant_id:
  assumes sim: "\<forall>conv conv'. map erase_msg conv = map erase_msg conv' \<longrightarrow>
                  erase_outcome (llm e conv) = erase_outcome (l' conv')"
    and s: "erase_state st = erase_state st'"
  shows "erase_turn (agent_loop e t atts n st) = erase_turn (agent_loop (e\<lparr>llm := l'\<rparr>) t atts n st')"
  using sim s
proof (induction e t atts n st arbitrary: st' rule: agent_loop.induct)
  case (1 e t a n st)
  let ?e' = "e\<lparr>llm := l'\<rparr>"
  note s = "1.prems"(2)
  from s have conv: "map erase_msg (conversation st) = map erase_msg (conversation st')"
    by (simp add: erase_state_eq_iff)
  with "1.prems"(1)
  have o: "erase_outcome (llm e (conversation st)) = erase_outcome (l' (conversation st'))"
    by blast
  show ?case
  proof (cases "n < MAX_LOOPS")
    case False
    with s show ?thesis
      by (subst (1 2) agent_loop.simps) (simp add: erase_turn_def)
  next
    case True
    show ?thesis
    proof (cases "llm e (conversation st)")
      case LlmFailed
      with o have "l' (conversation st') = LlmFailed"
        by (cases "l' (conversation st')") simp_all
      with LlmFailed True s show ?thesis
        by (subst (1 2) agent_loop.simps) (simp add: erase_turn_def)
    next
      case (LlmReply m)
      with o obtain m' where m': "l' (conversation st') = LlmReply m'"
        and mm: "erase_reply m = erase_reply m'"
        by (cases "l' (conversation st')") simp_all
      have f: "\<And>sel. sel (erase_reply m) = sel (erase_reply m')" using mm by simp
      from f [of am_tool_calls]
      have tc: "map_option (map erase_call) (am_tool_calls m)
                  = map_option (map erase_call) (am_tool_calls m')"
        by (simp add: erase_reply_def)
      show ?thesis
      proof (cases "am_tool_calls m")
        case None
        with tc have "am_tool_calls m' = None" by simp
        with None LlmReply m' True s mm show ?thesis
          by (subst (1 2) agent_loop.simps) (simp add: erase_turn_def erase_state_eq_iff)
      next
        case (Some tcs)
        with tc obtain tcs' where tcs': "am_tool_calls m' = Some tcs'"
          and ee: "map erase_call tcs = map erase_call tcs'"
          by (cases "am_tool_calls m'") auto
        let ?s1 = "st\<lparr>conversation := conversation st @ [AssistantMsg m],
                       allToolCalls := allToolCalls st @ tcs\<rparr>"
        let ?s1' = "st'\<lparr>conversation := conversation st' @ [AssistantMsg m'],
                         allToolCalls := allToolCalls st' @ tcs'\<rparr>"
        from s mm ee have s1: "erase_state ?s1 = erase_state ?s1'"
          by (simp add: erase_state_eq_iff)
        note k = run_tool_calls_same_up_to_tenant_id [OF s1 ee, of e t a]
        show ?thesis
        proof (cases "run_tool_calls e t a tcs ?s1")
          case (Inl x)
          with k obtain x' where x': "run_tool_calls e t a tcs' ?s1' = Inl x'"
            and xx: "erase_state x = erase_state x'"
            by (cases "run_tool_calls e t a tcs' ?s1'") simp_all
          with Inl True LlmReply m' Some tcs' show ?thesis
            by (subst (1 2) agent_loop.simps)
               (simp add: erase_turn_def run_tool_calls_other_engine)
        next
          case (Inr x)
          with k obtain x' where x': "run_tool_calls e t a tcs' ?s1' = Inr x'"
            and xx: "erase_state x = erase_state x'"
            by (cases "run_tool_calls e t a tcs' ?s1'") simp_all
          from "1.IH" [OF True LlmReply Some Inr "1.prems"(1) xx]
          have "erase_turn (agent_loop e t a (n + 1) x)
                  = erase_turn (agent_loop ?e' t a (n + 1) x')" .
          with Inr x' True LlmReply m' Some tcs' show ?thesis
            by (subst (1 2) agent_loop.simps) (simp add: run_tool_calls_other_engine)
        qed
      qed
    qed
  qed
qed

lemma chatHandler_same_up_to_tenant_id:
  assumes "\<forall>conv conv'. map erase_msg conv = map erase_msg conv' \<longrightarrow>
             erase_outcome (llm e conv) = erase_outcome (l' conv')"
  shows "erase_turn (chatHandler e req wos reads)
           = erase_turn (chatHandler (e\<lparr>llm := l'\<rparr>) req wos reads)"
  by (simp add: chatHandler_def Let_def agent_loop_same_up_to_tenant_id [OF assms]
        split: option.splits)

section \<open>Work-order state machine\<close>




text \<open>
  Claim C3. With a contractor argument \<open>cid\<close>, \<open>create_work_order\<close> takes the first
  contractor whose identifier is \<open>cid\<close>; if there is none, the first whose name equals
  \<open>cid\<close> up to letter case; if there is none either, the first whose name contains \<open>cid\<close>
  up to letter case. In each case the collection stored is the one read with one record
  appended that carries that contractor's identifier and name. If no contractor
  matches in any of the three ways the call raises and the collection is the one read.
  Letter case is that of \<open>toLowerCase\<close>, for whatever the Unicode case tables are.
\<close>

theorem create_work_order_resolves_contractor:
  "(\<forall>c. List.find (\<lambda>d. c_id d = cid) cs = Some c \<longrightarrow>
        stored_with_contractor c wos (create_work_order ul ms now cs wos t s (Some cid) p a)) \<and>
   (\<forall>c. (\<forall>d \<in> set cs. c_id d \<noteq> cid) \<and>
        List.find (\<lambda>d. toLowerCase ul (c_name d) = toLowerCase ul cid) cs = Some c \<longrightarrow>
        stored_with_contractor c wos (create_work_order ul ms now cs wos t s (Some cid) p a)) \<and>
   (\<forall>c. (\<forall>d \<in> set cs. c_id d \<noteq> cid \<and> toLowerCase ul (c_name d) \<noteq> toLowerCase ul cid) \<and>
        List.find (\<lambda>d. js_includes (toLowerCase ul (c_name d)) (toLowerCase ul cid)) cs = Some c \<longrightarrow>
        stored_with_contractor c wos (create_work_order ul ms now cs wos t s (Some cid) p a)) \<and>
   ((\<forall>d \<in> set cs. c_id d \<noteq> cid \<and> toLowerCase ul (c_name d) \<noteq> toLowerCase ul cid \<and>
        \<not> js_includes (toLowerCase ul (c_name d)) (toLowerCase ul cid)) \<longrightarrow>
      create_work_order ul ms now cs wos t s (Some cid) p a = (wos, Inl (ContractorNotFound cid cs)))"
proof (intro conjI allI impI)
  fix c assume "List.find (\<lambda>d. c_id d = cid) cs = Some c"
  then have "find_contractor ul cs cid = Some c" by (simp add: find_contractor_def)
  then show "stored_with_contractor c wos (create_work_order ul ms now cs wos t s (Some cid) p a)"
    by (rule create_stores)
next
  fix c assume a: "(\<forall>d \<in> set cs. c_id d \<noteq> cid) \<and>
        List.find (\<lambda>d. toLowerCase ul (c_name d) = toLowerCase ul cid) cs = Some c"
  then have "List.find (\<lambda>d. c_id d = cid) cs = None" by (simp add: find_None_iff)
  with a have "find_contractor ul cs cid = Some c" by (simp add: find_contractor_def)
  then show "stored_with_contractor c wos (create_work_order ul ms now cs wos t s (Some cid) p a)"
    by (rule create_stores)
next
  fix c assume a: "(\<forall>d \<in> set cs. c_id d \<noteq> cid \<and> toLowerCase ul (c_name d) \<noteq> toLowerCase ul cid) \<and>
        List.find (\<lambda>d. js_includes (toLowerCase ul (c_name d)) (toLowerCase ul cid)) cs = Some c"
  then have "List.find (\<lambda>d. c_id d = cid) cs = None"
    and "List.find (\<lambda>d. toLowerCase ul (c_name d) = toLowerCase ul cid) cs = None"
    by (simp_all add: find_None_iff)
  with a have "find_contractor ul cs cid = Some c" by (simp add: find_contractor_def)
  then show "stored_with_contractor c wos (create_work_order ul ms now cs wos t s (Some cid) p a)"
    by (rule create_stores)
next
  assume a: "\<forall>d \<in> set cs. c_id d \<noteq> cid \<and> toLowerCase ul (c_name d) \<noteq> toLowerCase ul cid \<and>
        \<not> js_includes (toLowerCase ul (c_name d)) (toLowerCase ul cid)"
  then have "List.find (\<lambda>d. c_id d = cid) cs = None"
    and "List.find (\<lambda>d. toLowerCase ul (c_name d) = toLowerCase ul cid) cs = None"
    and "List.find (\<lambda>d. js_includes (toLowerCase ul (c_name d)) (toLowerCase ul cid)) cs = None"
    by (simp_all add: find_None_iff)
  then have "find_contractor ul cs cid = None" by (simp add: find_contractor_def)
  then show "create_work_order ul ms now cs wos t s (Some cid) p a = (wos, Inl (ContractorNotFound cid cs))"
    by (simp add: create_work_order_def)
qed

theorem create_work_order_resolves_contractor_witness:
  "stored_with_contractor sparky []
     (create_work_order plain 1 100 [plumber, sparky] [] None None (Some (lit ''contractor-002'')) None None) \<and>
   stored_with_contractor plumber []
     (create_work_order plain 1 100 [plumber, sparky] [] None None (Some (lit ''BOB plumbing'')) None None) \<and>
   stored_with_contractor sparky []
     (create_work_order plain 1 100 [plumber, sparky] [] None None (Some (lit ''volt'')) None None) \<and>
   create_work_order plain 1 100 [plumber, sparky] [] None None (Some (lit ''nobody'')) None None
     = ([], Inl (ContractorNotFound (lit ''nobody'') [plumber, sparky])) \<and>
   stored_with_contractor emile []
     (create_work_order latin_lower 1 100 [plumber, emile] [] None None
        (Some (233 # lit ''mile gas'')) None None)"
proof -
  have e: "(\<forall>d \<in> set [plumber, emile]. c_id d \<noteq> 233 # lit ''mile gas'') \<and>
     List.find (\<lambda>d. toLowerCase latin_lower (c_name d)
                    = toLowerCase latin_lower (233 # lit ''mile gas'')) [plumber, emile]
       = Some emile"
    by code_simp
  from create_work_order_resolves_contractor [where cs = "[plumber, emile]" and wos = "[]"
      and ul = latin_lower and ms = 1 and now = 100 and t = None and s = None and p = None
      and a = None and cid = "233 # lit ''mile gas''"] e
  have accent: "stored_with_contractor emile []
     (create_work_order latin_lower 1 100 [plumber, emile] [] None None
        (Some (233 # lit ''mile gas'')) None None)"
    by blast
  have a: "List.find (\<lambda>d. c_id d = (lit ''contractor-002'')) [plumber, sparky] = Some sparky"
    by (simp add: plumber_def sparky_def)
  have b: "(\<forall>d \<in> set [plumber, sparky]. c_id d \<noteq> (lit ''BOB plumbing'')) \<and>
     List.find (\<lambda>d. toLowerCase plain (c_name d) = toLowerCase plain (lit ''BOB plumbing'')) [plumber, sparky]
       = Some plumber"
    by code_simp
  have c: "(\<forall>d \<in> set [plumber, sparky]. c_id d \<noteq> (lit ''volt'') \<and>
        toLowerCase plain (c_name d) \<noteq> toLowerCase plain (lit ''volt'')) \<and>
     List.find (\<lambda>d. js_includes (toLowerCase plain (c_name d)) (toLowerCase plain (lit ''volt''))) [plumber, sparky]
       = Some sparky"
    by code_simp
  have d: "\<forall>d \<in> set [plumber, sparky]. c_id d \<noteq> (lit ''nobody'') \<and>
        toLowerCase plain (c_name d) \<noteq> toLowerCase plain (lit ''nobody'') \<and>
        \<not> js_includes (toLowerCase plain (c_name d)) (toLowerCase plain (lit ''nobody''))"
    by code_simp
  note t = create_work_order_resolves_contractor [where cs = "[plumber, sparky]" and wos = "[]"
      and ul = plain and ms = 1 and now = 100 and t = None and s = None and p = None and a = None]
  from t [of "(lit ''contractor-002'')"] a
  have "stored_with_contractor sparky []
     (create_work_order plain 1 100 [plumber, sparky] [] None None (Some (lit ''contractor-002'')) None None)"
    by blast
  moreover from t [of "(lit ''BOB plumbing'')"] b
  have "stored_with_contractor plumber []
     (create_work_order plain 1 100 [plumber, sparky] [] None None (Some (lit ''BOB plumbing'')) None None)"
    by blast
  moreover from t [of "(lit ''volt'')"] c
  have "stored_with_contractor sparky []
     (create_work_order plain 1 100 [plumber, sparky] [] None None (Some (lit ''volt'')) None None)"
    by blast
  moreover from t [of "(lit ''nobody'')"] d
  have "create_work_order plain 1 100 [plumber, sparky] [] None None (Some (lit ''nobody'')) None None
     = ([], Inl (ContractorNotFound (lit ''nobody'') [plumber, sparky]))"
    by blast
  ultimately show ?thesis using accent by blast
qed

text \<open>
  Claim C4. If some record has the given identifier, \<open>complete_work_order\<close> returns a
  result, and in the collection stored the first such record has status \<open>solved\<close>,
  \<open>resolved_at\<close> and \<open>updated_at\<close> set to the two clock readings, and every other
  position holds the record it held. If no record has the identifier the call raises
  the not-found error and the collection is the one read.
\<close>

theorem complete_work_order_solved_or_not_found:
  "((\<exists>wo \<in> set workOrders. Some (wo_id wo) = work_order_id) \<longrightarrow>
      (\<exists>i r wos'. complete_work_order now now' workOrders work_order_id notes = (wos', Inr r) \<and>
         i < length workOrders \<and> Some (wo_id (workOrders ! i)) = work_order_id \<and>
         length wos' = length workOrders \<and>
         wo_id (wos' ! i) = wo_id (workOrders ! i) \<and>
         status (wos' ! i) = Some (lit ''solved'') \<and>
         resolved_at (wos' ! i) = Some now' \<and>
         updated_at (wos' ! i) = Some now \<and>
         (\<forall>j < length workOrders. j \<noteq> i \<longrightarrow> wos' ! j = workOrders ! j))) \<and>
   ((\<forall>wo \<in> set workOrders. Some (wo_id wo) \<noteq> work_order_id) \<longrightarrow>
      complete_work_order now now' workOrders work_order_id notes =
        (workOrders, Inl (WorkOrderNotFound work_order_id)))"
proof (intro conjI impI)
  assume ex: "\<exists>wo \<in> set workOrders. Some (wo_id wo) = work_order_id"
  then obtain i where i: "findIndex (\<lambda>wo. Some (wo_id wo) = work_order_id) workOrders = Some i"
    using findIndex_exists [of workOrders "\<lambda>wo. Some (wo_id wo) = work_order_id"] by blast
  from findIndex_Some [OF i] have b: "i < length workOrders"
    and m: "Some (wo_id (workOrders ! i)) = work_order_id" by simp_all
  show "\<exists>i r wos'. complete_work_order now now' workOrders work_order_id notes = (wos', Inr r) \<and>
         i < length workOrders \<and> Some (wo_id (workOrders ! i)) = work_order_id \<and>
         length wos' = length workOrders \<and>
         wo_id (wos' ! i) = wo_id (workOrders ! i) \<and>
         status (wos' ! i) = Some (lit ''solved'') \<and>
         resolved_at (wos' ! i) = Some now' \<and>
         updated_at (wos' ! i) = Some now \<and>
         (\<forall>j < length workOrders. j \<noteq> i \<longrightarrow> wos' ! j = workOrders ! j)"
    using b m i
    by (intro exI [of _ i]) (auto simp: complete_work_order_def Let_def split: option.splits)
next
  assume "\<forall>wo \<in> set workOrders. Some (wo_id wo) \<noteq> work_order_id"
  then have "findIndex (\<lambda>wo. Some (wo_id wo) = work_order_id) workOrders = None"
    by (simp add: findIndex_None)
  then show "complete_work_order now now' workOrders work_order_id notes =
        (workOrders, Inl (WorkOrderNotFound work_order_id))"
    by (simp add: complete_work_order_def)
qed

theorem complete_work_order_solved_or_not_found_witness:
  "status (fst (complete_work_order 200 201 [tap_order, alarm_order] (Some (lit ''wo-1'')) None) ! 0)
     = Some (lit ''solved'') \<and>
   resolved_at (fst (complete_work_order 200 201 [tap_order, alarm_order] (Some (lit ''wo-1'')) None) ! 0)
     = Some 201 \<and>
   updated_at (fst (complete_work_order 200 201 [tap_order, alarm_order] (Some (lit ''wo-1'')) None) ! 0)
     = Some 200 \<and>
   fst (complete_work_order 200 201 [tap_order, alarm_order] (Some (lit ''wo-1'')) None) ! 1
     = alarm_order \<and>
   complete_work_order 200 201 [tap_order, alarm_order] (Some (lit ''wo-7'')) None
     = ([tap_order, alarm_order], Inl (WorkOrderNotFound (Some (lit ''wo-7''))))"
proof -
  have h1: "\<exists>wo \<in> set [tap_order, alarm_order]. Some (wo_id wo) = Some (lit ''wo-1'')"
    by (simp add: tap_order_def)
  have h2: "\<forall>wo \<in> set [tap_order, alarm_order]. Some (wo_id wo) \<noteq> Some (lit ''wo-7'')"
    by (simp add: tap_order_def alarm_order_def)
  have one: "wo_id ([tap_order, alarm_order] ! i) = (lit ''wo-1'') \<Longrightarrow> i < 2 \<Longrightarrow> i = 0" for i
    by (cases i) (simp_all add: alarm_order_def)
  from complete_work_order_solved_or_not_found
         [of "[tap_order, alarm_order]" "Some (lit ''wo-1'')" 200 201 None] h1
  obtain i r wos' where
    r: "complete_work_order 200 201 [tap_order, alarm_order] (Some (lit ''wo-1'')) None = (wos', Inr r)"
      "i < length [tap_order, alarm_order]"
      "Some (wo_id ([tap_order, alarm_order] ! i)) = Some (lit ''wo-1'')"
      "status (wos' ! i) = Some (lit ''solved'')" "resolved_at (wos' ! i) = Some 201"
      "updated_at (wos' ! i) = Some 200"
      "\<forall>j < length [tap_order, alarm_order]. j \<noteq> i \<longrightarrow> wos' ! j = [tap_order, alarm_order] ! j"
    by blast
  from r(2,3) have i0: "i = 0" using one [of i] by simp
  from r(7) i0 have "wos' ! 1 = alarm_order" by simp
  moreover from complete_work_order_solved_or_not_found
         [of "[tap_order, alarm_order]" "Some (lit ''wo-7'')" 200 201 None] h2
  have "complete_work_order 200 201 [tap_order, alarm_order] (Some (lit ''wo-7'')) None
     = ([tap_order, alarm_order], Inl (WorkOrderNotFound (Some (lit ''wo-7''))))" by blast
  ultimately show ?thesis using r(1,4,5,6) i0 by simp
qed

text \<open>
  Claim C9. If some record has the given identifier, \<open>update_work_order\<close> returns a
  result, and the collection stored differs from the one read at one position only,
  the first record with that identifier. That record is the old one with \<open>updated_at\<close>
  stamped and with \<open>issue_summary\<close>, \<open>priority\<close> and \<open>status\<close> replaced where the call
  provides them: every other field, the attachments among them, is as it was.
\<close>

theorem update_work_order_frame:
  assumes "\<exists>wo \<in> set workOrders. Some (wo_id wo) = work_order_id"
  shows "\<exists>i r wos'. update_work_order now workOrders work_order_id s p st = (wos', Inr r) \<and>
           i < length workOrders \<and> Some (wo_id (workOrders ! i)) = work_order_id \<and>
           length wos' = length workOrders \<and>
           (\<forall>j < length workOrders. j \<noteq> i \<longrightarrow> wos' ! j = workOrders ! j) \<and>
           wos' ! i = (workOrders ! i)
             \<lparr> issue_summary := (case s of None \<Rightarrow> issue_summary (workOrders ! i) | Some v \<Rightarrow> Some v),
               priority := (case p of None \<Rightarrow> priority (workOrders ! i) | Some v \<Rightarrow> Some v),
               status := (case st of None \<Rightarrow> status (workOrders ! i) | Some v \<Rightarrow> Some v),
               updated_at := Some now \<rparr> \<and>
           attachments (wos' ! i) = attachments (workOrders ! i)"
proof -
  from assms obtain i where i: "findIndex (\<lambda>wo. Some (wo_id wo) = work_order_id) workOrders = Some i"
    using findIndex_exists [of workOrders "\<lambda>wo. Some (wo_id wo) = work_order_id"] by blast
  from findIndex_Some [OF i] have b: "i < length workOrders"
    and m: "Some (wo_id (workOrders ! i)) = work_order_id" by simp_all
  show ?thesis
    using b m i
    by (intro exI [of _ i]) (auto simp: update_work_order_def Let_def split: option.splits)
qed

theorem update_work_order_frame_witness:
  "fst (update_work_order 300 [tap_order, alarm_order] (Some (lit ''wo-1'')) None (Some (lit ''Low'')) None)
     = [tap_order\<lparr>priority := Some (lit ''Low''), updated_at := Some 300\<rparr>, alarm_order] \<and>
   attachments
     (fst (update_work_order 300 [tap_order, alarm_order] (Some (lit ''wo-1'')) None (Some (lit ''Low'')) None) ! 0)
     = attachments tap_order"
proof -
  have h: "\<exists>wo \<in> set [tap_order, alarm_order]. Some (wo_id wo) = Some (lit ''wo-1'')"
    by (simp add: tap_order_def)
  have one: "wo_id ([tap_order, alarm_order] ! i) = (lit ''wo-1'') \<Longrightarrow> i < 2 \<Longrightarrow> i = 0" for i
    by (cases i) (simp_all add: alarm_order_def)
  from update_work_order_frame [OF h, of 300 None "Some (lit ''Low'')" None]
  obtain i r wos' where
    r: "update_work_order 300 [tap_order, alarm_order] (Some (lit ''wo-1'')) None (Some (lit ''Low'')) None
          = (wos', Inr r)"
      "i < length [tap_order, alarm_order]"
      "Some (wo_id ([tap_order, alarm_order] ! i)) = Some (lit ''wo-1'')"
      "length wos' = length [tap_order, alarm_order]"
      "\<forall>j < length [tap_order, alarm_order]. j \<noteq> i \<longrightarrow> wos' ! j = [tap_order, alarm_order] ! j"
      "wos' ! i = ([tap_order, alarm_order] ! i)
         \<lparr> issue_summary := (case None of None \<Rightarrow> issue_summary ([tap_order, alarm_order] ! i)
                              | Some v \<Rightarrow> Some v),
           priority := (case Some (lit ''Low'') of None \<Rightarrow> priority ([tap_order, alarm_order] ! i)
                        | Some v \<Rightarrow> Some v),
           status := (case None of None \<Rightarrow> status ([tap_order, alarm_order] ! i)
                      | Some v \<Rightarrow> Some v),
           updated_at := Some 300 \<rparr>"
      "attachments (wos' ! i) = attachments ([tap_order, alarm_order] ! i)"
    by blast
  from r(2,3) have i0: "i = 0" using one [of i] by simp
  from r(5) i0 have w1: "wos' ! 1 = alarm_order" by simp
  from r(6) i0 have w0: "wos' ! 0 = tap_order\<lparr>priority := Some (lit ''Low''), updated_at := Some 300\<rparr>"
    by (simp add: tap_order_def)
  from r(4) w0 w1 have "wos' = [tap_order\<lparr>priority := Some (lit ''Low''), updated_at := Some 300\<rparr>, alarm_order]"
    by (cases wos') (auto simp: length_Suc_conv)
  with r(1,7) i0 show ?thesis by simp
qed

section \<open>Duplicate issue detector\<close>

text \<open>
  Claim C8. When no work order of the tenant has an active status, the duplicate check
  returns \<open>has_similar: false\<close> with a count of zero and no error, and the list of
  secondary reasoning calls it made is empty. The tenant of an order is its \<open>tenant_id\<close>
  or else its \<open>tenantId\<close>, and a status is active when its lower-case form is \<open>assigned\<close>,
  \<open>pending\<close> or \<open>in_progress\<close>, which for a status of the enumerated set is membership
  in the three.
\<close>

theorem check_similar_issues_fast_path:
  assumes "\<forall>wo \<in> set wos. js_or (tenant_id wo) (tenantId wo) = tid \<longrightarrow>
             toLowerCase ul (or_empty (status wo))
               \<notin> {lit ''assigned'', lit ''pending'', lit ''in_progress''}"
  shows "has_similar (fst (check_similar_issues ul judge wos tid d)) = False \<and>
         active_orders_count (fst (check_similar_issues ul judge wos tid d)) = Some 0 \<and>
         error (fst (check_similar_issues ul judge wos tid d)) = None \<and>
         snd (check_similar_issues ul judge wos tid d) = []"
proof -
  from assms have "\<forall>wo \<in> set wos. \<not> is_active_for ul tid wo"
    by (auto simp: is_active_for_def Let_def)
  then have "filter (is_active_for ul tid) wos = []"
    by (simp add: filter_empty_conv)
  then show ?thesis
    by (simp add: check_similar_issues_no_active)
qed

theorem check_similar_issues_fast_path_witness:
  "has_similar (fst (check_similar_issues plain bogus_judge [tap_order, alarm_order]
       (Some (lit ''tenant-002'')) (Some (lit ''smoke alarm is beeping'')))) = False \<and>
   snd (check_similar_issues plain bogus_judge [tap_order, alarm_order]
       (Some (lit ''tenant-002'')) (Some (lit ''smoke alarm is beeping''))) = []"
proof -
  have h: "\<forall>wo \<in> set [tap_order, alarm_order].
      js_or (tenant_id wo) (tenantId wo) = Some (lit ''tenant-002'') \<longrightarrow>
      toLowerCase plain (or_empty (status wo))
        \<notin> {lit ''assigned'', lit ''pending'', lit ''in_progress''}"
    by code_simp
  from check_similar_issues_fast_path [OF h, of bogus_judge "Some (lit ''smoke alarm is beeping'')"]
  show ?thesis by simp
qed

text \<open>
  Claim C2, as amended. The tenant has an active work order. If the secondary reasoning
  call fails, or its verdict claims similarity and names a non-empty
  \<open>matching_order_id\<close> that is the identifier of no active order, the check returns
  \<open>has_similar: false\<close> with the \<open>error\<close> field set, and the result lists the active
  orders and their number. (For the unresolved identifier the code reaches this through
  the exception raised when it reads the summary of the order it did not find.) If the
  verdict does not claim similarity, or its \<open>matching_order_id\<close> is null or empty, the
  check returns \<open>has_similar: false\<close> with the active orders and their number and without
  the \<open>error\<close> field, whatever identifier the verdict names.
\<close>

theorem check_similar_issues_fails_open:
  assumes "filter (is_active_for ul tid) wos \<noteq> []"
  shows
    "(judge d (map to_existing_issue (filter (is_active_for ul tid) wos)) = JudgeFailed \<or>
      (\<exists>v mid. judge d (map to_existing_issue (filter (is_active_for ul tid) wos)) = JudgeVerdict v \<and>
         is_similar v \<and> matching_order_id v = Some mid \<and> mid \<noteq> [] \<and>
         mid \<notin> wo_id ` set (filter (is_active_for ul tid) wos)) \<longrightarrow>
      has_similar (fst (check_similar_issues ul judge wos tid d)) = False \<and>
      error (fst (check_similar_issues ul judge wos tid d))
        = Some (lit ''Could not perform semantic comparison'') \<and>
      existing_issues (fst (check_similar_issues ul judge wos tid d))
        = Some (map (\<lambda>wo. brief (to_existing_issue wo)) (filter (is_active_for ul tid) wos)) \<and>
      active_orders_count (fst (check_similar_issues ul judge wos tid d))
        = Some (length (filter (is_active_for ul tid) wos))) \<and>
     ((\<exists>v. judge d (map to_existing_issue (filter (is_active_for ul tid) wos)) = JudgeVerdict v \<and>
         (\<not> is_similar v \<or> matching_order_id v = None \<or> matching_order_id v = Some [])) \<longrightarrow>
      has_similar (fst (check_similar_issues ul judge wos tid d)) = False \<and>
      error (fst (check_similar_issues ul judge wos tid d)) = None \<and>
      existing_issues (fst (check_similar_issues ul judge wos tid d))
        = Some (map (\<lambda>wo. brief (to_existing_issue wo)) (filter (is_active_for ul tid) wos)) \<and>
      active_orders_count (fst (check_similar_issues ul judge wos tid d))
        = Some (length (filter (is_active_for ul tid) wos)))"
proof (intro conjI impI)
  let ?act = "filter (is_active_for ul tid) wos"
  assume "judge d (map to_existing_issue ?act) = JudgeFailed \<or>
      (\<exists>v mid. judge d (map to_existing_issue ?act) = JudgeVerdict v \<and>
         is_similar v \<and> matching_order_id v = Some mid \<and> mid \<noteq> [] \<and> mid \<notin> wo_id ` set ?act)"
  from compare_unresolved [where judge = judge and d = d and act = "?act", OF this] assms
  show "has_similar (fst (check_similar_issues ul judge wos tid d)) = False"
    and "error (fst (check_similar_issues ul judge wos tid d))
        = Some (lit ''Could not perform semantic comparison'')"
    and "existing_issues (fst (check_similar_issues ul judge wos tid d))
        = Some (map (\<lambda>wo. brief (to_existing_issue wo)) ?act)"
    and "active_orders_count (fst (check_similar_issues ul judge wos tid d)) = Some (length ?act)"
    by (auto simp: check_similar_issues_def Let_def comp_def)
next
  let ?act = "filter (is_active_for ul tid) wos"
  assume "\<exists>v. judge d (map to_existing_issue ?act) = JudgeVerdict v \<and>
         (\<not> is_similar v \<or> matching_order_id v = None \<or> matching_order_id v = Some [])"
  then obtain v where v: "judge d (map to_existing_issue ?act) = JudgeVerdict v"
    "\<not> is_similar v \<or> matching_order_id v = None \<or> matching_order_id v = Some []" by blast
  from compare_not_claimed [where judge = judge and d = d, OF v] assms
  show "has_similar (fst (check_similar_issues ul judge wos tid d)) = False"
    and "error (fst (check_similar_issues ul judge wos tid d)) = None"
    and "existing_issues (fst (check_similar_issues ul judge wos tid d))
        = Some (map (\<lambda>wo. brief (to_existing_issue wo)) ?act)"
    and "active_orders_count (fst (check_similar_issues ul judge wos tid d)) = Some (length ?act)"
    by (simp_all add: check_similar_issues_def Let_def comp_def)
qed

theorem check_similar_issues_fails_open_witness:
  "error (fst (check_similar_issues plain bogus_judge [tap_order, alarm_order]
       (Some (lit ''tenant-001'')) (Some (lit ''tap leaking''))))
     = Some (lit ''Could not perform semantic comparison'') \<and>
   has_similar (fst (check_similar_issues plain bogus_judge [tap_order, alarm_order]
       (Some (lit ''tenant-001'')) (Some (lit ''tap leaking'')))) = False \<and>
   existing_issues (fst (check_similar_issues plain bogus_judge [tap_order, alarm_order]
       (Some (lit ''tenant-001'')) (Some (lit ''tap leaking''))))
     = Some [\<lparr> b_id = lit ''wo-1'', b_issue_summary = Some (lit ''kitchen tap is dripping''),
               b_trade = lit ''plumbing'' \<rparr>] \<and>
   error (fst (check_similar_issues plain failing_judge [tap_order, alarm_order]
       (Some (lit ''tenant-001'')) (Some (lit ''tap leaking''))))
     = Some (lit ''Could not perform semantic comparison'') \<and>
   error (fst (check_similar_issues plain stray_judge [tap_order, alarm_order]
       (Some (lit ''tenant-001'')) (Some (lit ''tap leaking'')))) = None"
proof -
  have act: "filter (is_active_for plain (Some (lit ''tenant-001''))) [tap_order, alarm_order]
      = [tap_order]"
    by code_simp
  have h1: "filter (is_active_for plain (Some (lit ''tenant-001''))) [tap_order, alarm_order] \<noteq> []"
    unfolding act by simp
  have h2: "bogus_judge (Some (lit ''tap leaking''))
        (map to_existing_issue
           (filter (is_active_for plain (Some (lit ''tenant-001''))) [tap_order, alarm_order]))
        = JudgeFailed \<or>
      (\<exists>v mid. bogus_judge (Some (lit ''tap leaking''))
        (map to_existing_issue
           (filter (is_active_for plain (Some (lit ''tenant-001''))) [tap_order, alarm_order]))
          = JudgeVerdict v \<and>
        is_similar v \<and> matching_order_id v = Some mid \<and> mid \<noteq> [] \<and>
        mid \<notin> wo_id ` set (filter (is_active_for plain (Some (lit ''tenant-001'')))
                              [tap_order, alarm_order]))"
    unfolding act by (simp add: bogus_judge_def tap_order_def)
  have h3: "failing_judge (Some (lit ''tap leaking''))
        (map to_existing_issue
           (filter (is_active_for plain (Some (lit ''tenant-001''))) [tap_order, alarm_order]))
        = JudgeFailed \<or>
      (\<exists>v mid. failing_judge (Some (lit ''tap leaking''))
        (map to_existing_issue
           (filter (is_active_for plain (Some (lit ''tenant-001''))) [tap_order, alarm_order]))
          = JudgeVerdict v \<and>
        is_similar v \<and> matching_order_id v = Some mid \<and> mid \<noteq> [] \<and>
        mid \<notin> wo_id ` set (filter (is_active_for plain (Some (lit ''tenant-001'')))
                              [tap_order, alarm_order]))"
    by (simp add: failing_judge_def)
  have h4: "\<exists>v. stray_judge (Some (lit ''tap leaking''))
        (map to_existing_issue
           (filter (is_active_for plain (Some (lit ''tenant-001''))) [tap_order, alarm_order]))
          = JudgeVerdict v \<and>
        (\<not> is_similar v \<or> matching_order_id v = None \<or> matching_order_id v = Some [])"
    by (simp add: stray_judge_def)
  have b: "map (\<lambda>wo. brief (to_existing_issue wo)) [tap_order]
     = [\<lparr> b_id = lit ''wo-1'', b_issue_summary = Some (lit ''kitchen tap is dripping''),
               b_trade = lit ''plumbing'' \<rparr>]"
    by code_simp
  note t = check_similar_issues_fails_open [where ul = plain and tid = "Some (lit ''tenant-001'')"
      and wos = "[tap_order, alarm_order]" and d = "Some (lit ''tap leaking'')", OF h1]
  from t [where judge = bogus_judge] h2
  have r2: "has_similar (fst (check_similar_issues plain bogus_judge [tap_order, alarm_order]
       (Some (lit ''tenant-001'')) (Some (lit ''tap leaking'')))) = False"
    "error (fst (check_similar_issues plain bogus_judge [tap_order, alarm_order]
       (Some (lit ''tenant-001'')) (Some (lit ''tap leaking''))))
     = Some (lit ''Could not perform semantic comparison'')"
    "existing_issues (fst (check_similar_issues plain bogus_judge [tap_order, alarm_order]
       (Some (lit ''tenant-001'')) (Some (lit ''tap leaking''))))
     = Some (map (\<lambda>wo. brief (to_existing_issue wo))
         (filter (is_active_for plain (Some (lit ''tenant-001''))) [tap_order, alarm_order]))"
    by blast+
  from t [where judge = failing_judge] h3
  have r3: "error (fst (check_similar_issues plain failing_judge [tap_order, alarm_order]
       (Some (lit ''tenant-001'')) (Some (lit ''tap leaking''))))
     = Some (lit ''Could not perform semantic comparison'')"
    by blast
  from t [where judge = stray_judge] h4
  have r4: "error (fst (check_similar_issues plain stray_judge [tap_order, alarm_order]
       (Some (lit ''tenant-001'')) (Some (lit ''tap leaking'')))) = None"
    by blast
  from r2 r3 r4 show ?thesis unfolding act b by blast
qed

text \<open>
  Claim C2 as stated fails. With an active order \<open>wo-1\<close>, a verdict that names \<open>wo-999\<close>
  without claiming similarity, and a verdict that claims similarity and names the empty
  identifier, both name an identifier of no active order; the check returns
  \<open>has_similar: false\<close> with no \<open>error\<close> field.
\<close>

theorem check_similar_issues_unclaimed_match_counterexample:
  "filter (is_active_for plain (Some (lit ''tenant-001''))) [tap_order, alarm_order] = [tap_order] \<and>
   wo_id tap_order \<noteq> lit ''wo-999'' \<and>
   stray_judge (Some (lit ''tap leaking'')) [to_existing_issue tap_order]
     = JudgeVerdict \<lparr> is_similar = False, matching_order_id = Some (lit ''wo-999''),
                      reasoning = lit ''different'' \<rparr> \<and>
   has_similar (fst (check_similar_issues plain stray_judge [tap_order, alarm_order]
       (Some (lit ''tenant-001'')) (Some (lit ''tap leaking'')))) = False \<and>
   error (fst (check_similar_issues plain stray_judge [tap_order, alarm_order]
       (Some (lit ''tenant-001'')) (Some (lit ''tap leaking'')))) = None \<and>
   empty_id_judge (Some (lit ''tap leaking'')) [to_existing_issue tap_order]
     = JudgeVerdict \<lparr> is_similar = True, matching_order_id = Some [],
                      reasoning = lit ''same tap'' \<rparr> \<and>
   has_similar (fst (check_similar_issues plain empty_id_judge [tap_order, alarm_order]
       (Some (lit ''tenant-001'')) (Some (lit ''tap leaking'')))) = False \<and>
   error (fst (check_similar_issues plain empty_id_judge [tap_order, alarm_order]
       (Some (lit ''tenant-001'')) (Some (lit ''tap leaking'')))) = None"
  by code_simp

section \<open>Knowledge retriever\<close>

text \<open>
  Claim C7. For every corpus and every query the search returns a list of at most three
  articles, each with a score above zero, in order of descending score, and for every
  score the returned articles with that score are an initial part of the corpus
  articles with that score, in corpus order.
\<close>

theorem searchKnowledge_top_three_stable:
  "\<exists>rs. searchKnowledge ul (Some articles) (Some q) = Inr rs \<and>
     length rs \<le> 3 \<and>
     (\<forall>r \<in> set rs. 0 < score r) \<and>
     sorted_wrt (\<lambda>a b. score b \<le> score a) rs \<and>
     (\<forall>k. prefix (filter (\<lambda>r. score r = k) rs)
            (filter (\<lambda>r. score r = k) (map (score_article ul (split_ws (toLowerCase ul q))) articles)))"
proof -
  define xs where "xs = map (score_article ul (split_ws (toLowerCase ul q))) articles"
  define rs where "rs = take 3 (sort_key (\<lambda>r. - int (score r)) (filter (\<lambda>r. score r > 0) xs))"
  have e: "searchKnowledge ul (Some articles) (Some q) = Inr rs"
    by (simp add: searchKnowledge_def Let_def rs_def xs_def)
  have l: "length rs \<le> 3" unfolding rs_def by (rule top3_properties(1))
  have p: "\<forall>r \<in> set rs. 0 < score r" unfolding rs_def by (rule top3_properties(2))
  have o: "sorted_wrt (\<lambda>a b. score b \<le> score a) rs" unfolding rs_def by (rule top3_properties(3))
  have st: "\<forall>k. prefix (filter (\<lambda>r. score r = k) rs) (filter (\<lambda>r. score r = k) xs)"
    unfolding rs_def by (intro allI) (rule top3_properties(4))
  from e l p o st show ?thesis unfolding xs_def by blast
qed

theorem searchKnowledge_top_three_stable_witness:
  "\<exists>rs. searchKnowledge plain (Some example_articles) (Some (lit ''alarm'')) = Inr rs \<and>
     length rs \<le> 3 \<and>
     map sa_id rs = [Some (lit ''k1''), Some (lit ''k4''), Some (lit ''k2'')] \<and>
     map score rs = [3, 3, 1]"
proof -
  from searchKnowledge_top_three_stable [of plain example_articles "lit ''alarm''"]
  obtain rs where rs: "searchKnowledge plain (Some example_articles) (Some (lit ''alarm'')) = Inr rs"
    and l: "length rs \<le> 3" by blast
  have "map sa_id (projr (searchKnowledge plain (Some example_articles) (Some (lit ''alarm''))))
      = [Some (lit ''k1''), Some (lit ''k4''), Some (lit ''k2'')]"
    by code_simp
  moreover have "map score (projr (searchKnowledge plain (Some example_articles) (Some (lit ''alarm''))))
      = [3, 3, 1]"
    by code_simp
  ultimately show ?thesis using rs l by simp
qed

section \<open>Conversation controller\<close>

text \<open>
  Claim C5. Let \<open>tnt\<close> be the session's tenant, the one the handler finds for the request.
  Every call the turn dispatches to \<open>check_similar_issues\<close>, \<open>create_work_order\<close> or
  \<open>get_work_orders\<close> is handed the identifier of \<open>tnt\<close> as \<open>tenant_id\<close>, and each of the
  three tools is run at that identifier. Two engines whose replies are the same up to
  the \<open>tenant_id\<close> they write into tool arguments give turns that are the same up to
  that argument: the same response, the same tool results, the same work-order file,
  and in both the dispatched calls carry the identifier of \<open>tnt\<close>.
\<close>

theorem tool_tenant_id_overridden:
  assumes "tenants e = Some ts" and "session_tenant ts (req_tenantId req) = Some tnt"
  shows
    "list_all (tenant_bound (t_id tnt)) (dispatched (fst (snd (chatHandler e req wos reads)))) \<and>
     fst (run_tool e tnt atts (lit ''check_similar_issues'') args st)
       = SimilarResult (fst (check_similar_issues (unicode_lower e) (judge_of e)
                               (work_orders_file st) (Some (t_id tnt))
                               (arg_new_issue_description args))) \<and>
     fst (run_tool e tnt atts (lit ''get_work_orders'') args st)
       = OrdersResult (get_work_orders (unicode_lower e) (work_orders_file st) (Some (t_id tnt))
                         (arg_status_filter args)) \<and>
     work_orders_file (snd (run_tool e tnt atts (lit ''create_work_order'') args st))
       = fst (create_work_order (unicode_lower e) (clock e (clock_reads st))
                (clock e (Suc (clock_reads st))) (contractors_file e) (work_orders_file st)
                (Some (t_id tnt)) (arg_issue_summary args) (arg_contractor_id args)
                (arg_priority args) (Some (case atts of None \<Rightarrow> [] | Some x \<Rightarrow> x))) \<and>
     (\<forall>l'. (\<forall>conv conv'. map erase_msg conv = map erase_msg conv' \<longrightarrow>
                erase_outcome (llm e conv) = erase_outcome (l' conv')) \<longrightarrow>
        erase_turn (chatHandler (e\<lparr>llm := l'\<rparr>) req wos reads)
          = erase_turn (chatHandler e req wos reads) \<and>
        work_orders_file (fst (snd (chatHandler (e\<lparr>llm := l'\<rparr>) req wos reads)))
          = work_orders_file (fst (snd (chatHandler e req wos reads))) \<and>
        allToolResults (fst (snd (chatHandler (e\<lparr>llm := l'\<rparr>) req wos reads)))
          = allToolResults (fst (snd (chatHandler e req wos reads))) \<and>
        list_all (tenant_bound (t_id tnt))
          (dispatched (fst (snd (chatHandler (e\<lparr>llm := l'\<rparr>) req wos reads)))))"
proof (intro conjI allI impI)
  show "list_all (tenant_bound (t_id tnt)) (dispatched (fst (snd (chatHandler e req wos reads))))"
    using assms by (rule chatHandler_bound)
  show "fst (run_tool e tnt atts (lit ''check_similar_issues'') args st)
       = SimilarResult (fst (check_similar_issues (unicode_lower e) (judge_of e)
                               (work_orders_file st) (Some (t_id tnt))
                               (arg_new_issue_description args)))"
    by (simp add: run_tool_def split: prod.splits)
  show "fst (run_tool e tnt atts (lit ''get_work_orders'') args st)
       = OrdersResult (get_work_orders (unicode_lower e) (work_orders_file st) (Some (t_id tnt))
                         (arg_status_filter args))"
    by (simp add: run_tool_def)
  show "work_orders_file (snd (run_tool e tnt atts (lit ''create_work_order'') args st))
       = fst (create_work_order (unicode_lower e) (clock e (clock_reads st))
                (clock e (Suc (clock_reads st))) (contractors_file e) (work_orders_file st)
                (Some (t_id tnt)) (arg_issue_summary args) (arg_contractor_id args)
                (arg_priority args) (Some (case atts of None \<Rightarrow> [] | Some x \<Rightarrow> x)))"
    by (simp add: run_tool_def split: prod.splits)
next
  fix l'
  assume sim: "\<forall>conv conv'. map erase_msg conv = map erase_msg conv' \<longrightarrow>
                erase_outcome (llm e conv) = erase_outcome (l' conv')"
  from chatHandler_same_up_to_tenant_id [OF sim, of req wos reads]
  show eq: "erase_turn (chatHandler (e\<lparr>llm := l'\<rparr>) req wos reads)
          = erase_turn (chatHandler e req wos reads)"
    by simp
  then have "erase_state (fst (snd (chatHandler (e\<lparr>llm := l'\<rparr>) req wos reads)))
      = erase_state (fst (snd (chatHandler e req wos reads)))"
    by (simp add: erase_turn_def)
  then show "work_orders_file (fst (snd (chatHandler (e\<lparr>llm := l'\<rparr>) req wos reads)))
          = work_orders_file (fst (snd (chatHandler e req wos reads)))"
    and "allToolResults (fst (snd (chatHandler (e\<lparr>llm := l'\<rparr>) req wos reads)))
          = allToolResults (fst (snd (chatHandler e req wos reads)))"
    by (simp_all only: erase_state_eq_iff)
  have "tenants (e\<lparr>llm := l'\<rparr>) = Some ts" using assms(1) by simp
  from chatHandler_bound [OF this assms(2)]
  show "list_all (tenant_bound (t_id tnt))
          (dispatched (fst (snd (chatHandler (e\<lparr>llm := l'\<rparr>) req wos reads))))" .
qed

theorem tool_tenant_id_overridden_witness:
  "list_all (tenant_bound (lit ''tenant-001''))
     (dispatched (fst (snd (chatHandler (busy_env\<lparr>llm := prying_llm\<rparr>) alice_request
                              [tap_order, alarm_order] 0)))) \<and>
   map fst (dispatched (fst (snd (chatHandler (busy_env\<lparr>llm := prying_llm\<rparr>) alice_request
                              [tap_order, alarm_order] 0))))
     = replicate 5 (lit ''get_work_orders'') \<and>
   allToolResults (fst (snd (chatHandler (busy_env\<lparr>llm := prying_llm\<rparr>) alice_request
                              [tap_order, alarm_order] 0)))
     = allToolResults (fst (snd (chatHandler busy_env alice_request [tap_order, alarm_order] 0)))"
proof -
  have h1: "tenants busy_env = Some [alice, bruno]"
    by (simp add: busy_env_def)
  have h2: "session_tenant [alice, bruno] (req_tenantId alice_request) = Some alice"
    by (simp add: session_tenant_def alice_request_def alice_def)
  have sim: "\<forall>conv conv'. map erase_msg conv = map erase_msg conv' \<longrightarrow>
                erase_outcome (llm busy_env conv) = erase_outcome (prying_llm conv')"
    by (simp add: busy_env_def busy_llm_def prying_llm_def list_call_def prying_call_def
          erase_reply_def erase_call_def erase_args_def)
  have id: "t_id alice = lit ''tenant-001''" by (simp add: alice_def)
  have n: "map fst (dispatched (fst (snd (chatHandler (busy_env\<lparr>llm := prying_llm\<rparr>) alice_request
                              [tap_order, alarm_order] 0))))
     = replicate 5 (lit ''get_work_orders'')"
    by code_simp
  from tool_tenant_id_overridden [OF h1 h2, of "[tap_order, alarm_order]" 0] sim
  have "allToolResults (fst (snd (chatHandler (busy_env\<lparr>llm := prying_llm\<rparr>) alice_request
                              [tap_order, alarm_order] 0)))
     = allToolResults (fst (snd (chatHandler busy_env alice_request [tap_order, alarm_order] 0)))"
    and "list_all (tenant_bound (t_id alice))
     (dispatched (fst (snd (chatHandler (busy_env\<lparr>llm := prying_llm\<rparr>) alice_request
                              [tap_order, alarm_order] 0))))"
    by blast+
  with n id show ?thesis by simp
qed

text \<open>
  Claim C6. If every reply of the reasoning engine carries tool calls, the turn ends
  with an error response and \<open>loopCount\<close> is at most 5 when it ends. If moreover the
  engine always replies, the arguments of every tool call parse and the request has a
  tenant and messages, the turn ends after exactly 5 iterations with the error
  \<open>Agent loop limit exceeded\<close>. The handler is a total function: it always returns.
\<close>

theorem chat_turn_stops_at_cap:
  assumes "\<forall>conv m. llm e conv = LlmReply m \<longrightarrow> am_tool_calls m \<noteq> None"
  shows "(\<exists>msg. fst (chatHandler e req wos reads) = Error500 msg) \<and>
         snd (snd (chatHandler e req wos reads)) \<le> 5 \<and>
         ((\<forall>conv. llm e conv \<noteq> LlmFailed) \<and>
          (\<forall>conv m tcs. llm e conv = LlmReply m \<and> am_tool_calls m = Some tcs \<longrightarrow>
              (\<forall>tc \<in> set tcs. tc_arguments tc \<noteq> None)) \<and>
          (\<exists>ts t. tenants e = Some ts \<and> session_tenant ts (req_tenantId req) = Some t) \<and>
          req_messages req \<noteq> None \<longrightarrow>
            fst (chatHandler e req wos reads) = Error500 (lit ''Agent loop limit exceeded'') \<and>
            snd (snd (chatHandler e req wos reads)) = 5)"
proof (intro conjI impI)
  note a = agent_loop_fails_when_always_tools [OF assms]
  show "\<exists>msg. fst (chatHandler e req wos reads) = Error500 msg"
    using a by (simp add: chatHandler_def Let_def split: option.splits)
  show "snd (snd (chatHandler e req wos reads)) \<le> 5"
    using a by (simp add: chatHandler_def Let_def MAX_LOOPS_def split: option.splits)
next
  assume w: "(\<forall>conv. llm e conv \<noteq> LlmFailed) \<and>
          (\<forall>conv m tcs. llm e conv = LlmReply m \<and> am_tool_calls m = Some tcs \<longrightarrow>
              (\<forall>tc \<in> set tcs. tc_arguments tc \<noteq> None)) \<and>
          (\<exists>ts t. tenants e = Some ts \<and> session_tenant ts (req_tenantId req) = Some t) \<and>
          req_messages req \<noteq> None"
  then have nf: "\<forall>conv. llm e conv \<noteq> LlmFailed"
    and P: "\<forall>conv m tcs. llm e conv = LlmReply m \<and> am_tool_calls m = Some tcs \<longrightarrow>
              (\<forall>tc \<in> set tcs. tc_arguments tc \<noteq> None)" by blast+
  note b = agent_loop_reaches_cap [OF nf assms P, where n = 0]
  from w obtain ts t msgs where "tenants e = Some ts" "session_tenant ts (req_tenantId req) = Some t"
    "req_messages req = Some msgs" by auto
  then show "fst (chatHandler e req wos reads) = Error500 (lit ''Agent loop limit exceeded'')"
    and "snd (snd (chatHandler e req wos reads)) = 5"
    using b by (simp_all add: chatHandler_def Let_def MAX_LOOPS_def)
qed

theorem chat_turn_stops_at_cap_witness:
  "fst (chatHandler busy_env hello_request [tap_order, alarm_order] 0)
     = Error500 (lit ''Agent loop limit exceeded'') \<and>
   snd (snd (chatHandler busy_env hello_request [tap_order, alarm_order] 0)) = 5"
proof -
  have h: "\<forall>conv m. llm busy_env conv = LlmReply m \<longrightarrow> am_tool_calls m \<noteq> None"
    by (auto simp: busy_env_def busy_llm_def)
  have w: "(\<forall>conv. llm busy_env conv \<noteq> LlmFailed) \<and>
          (\<forall>conv m tcs. llm busy_env conv = LlmReply m \<and> am_tool_calls m = Some tcs \<longrightarrow>
              (\<forall>tc \<in> set tcs. tc_arguments tc \<noteq> None)) \<and>
          (\<exists>ts t. tenants busy_env = Some ts \<and>
              session_tenant ts (req_tenantId hello_request) = Some t) \<and>
          req_messages hello_request \<noteq> None"
    by (auto simp: busy_env_def busy_llm_def list_call_def hello_request_def session_tenant_def
          split: option.splits)
  from chat_turn_stops_at_cap [OF h, of hello_request "[tap_order, alarm_order]" 0] w
  show ?thesis by blast
qed

text \<open>
  Claim C10. The tenant file has a first tenant and the request's \<open>tenantId\<close> is the
  identifier of no tenant. Then the session's tenant is the first tenant, the turn is the
  very turn the first tenant's own identifier would give, and with messages in the
  request it is the loop started with the first tenant, whose identifier, name and
  unit are in the system message. When the engine then answers without tool calls the
  response is that answer. Every call the turn dispatches to \<open>check_similar_issues\<close>,
  \<open>create_work_order\<close> or \<open>get_work_orders\<close> is handed the first tenant's identifier as
  \<open>tenant_id\<close>.
\<close>

theorem unknown_tenant_served_as_first:
  assumes "tenants e = Some (t0 # rest)"
    and "\<forall>t \<in> set (t0 # rest). Some (t_id t) \<noteq> req_tenantId req"
  shows "session_tenant (t0 # rest) (req_tenantId req) = Some t0 \<and>
         chatHandler e req wos reads
           = chatHandler e (req\<lparr>req_tenantId := Some (t_id t0)\<rparr>) wos reads \<and>
         (\<forall>msgs. req_messages req = Some msgs \<longrightarrow>
            chatHandler e req wos reads
              = agent_loop e t0 (req_attachments req) 0
                  \<lparr> conversation =
                      SystemMsg (t_id t0) (t_name t0) (t_unit t0)
                        (photo_count (req_attachments req))
                      # map ChatMsg (recent_messages msgs),
                    allToolCalls = [], allToolResults = [],
                    work_orders_file = wos, clock_reads = reads, judge_calls = [],
                    dispatched = [] \<rparr>) \<and>
         (\<forall>msgs m. req_messages req = Some msgs \<and>
            llm e (SystemMsg (t_id t0) (t_name t0) (t_unit t0) (photo_count (req_attachments req))
                    # map ChatMsg (recent_messages msgs)) = LlmReply m \<and>
            am_tool_calls m = None \<longrightarrow>
            fst (chatHandler e req wos reads) = Ok200 m [] []) \<and>
         list_all (tenant_bound (t_id t0))
           (dispatched (fst (snd (chatHandler e req wos reads))))"
proof -
  note s = session_tenant_first [OF assms(2)]
  have c: "chatHandler e req wos reads
           = chatHandler e (req\<lparr>req_tenantId := Some (t_id t0)\<rparr>) wos reads"
    by (simp add: chatHandler_def assms(1) s session_tenant_own_id split: option.splits)
  have l: "\<forall>msgs. req_messages req = Some msgs \<longrightarrow>
            chatHandler e req wos reads
              = agent_loop e t0 (req_attachments req) 0
                  \<lparr> conversation =
                      SystemMsg (t_id t0) (t_name t0) (t_unit t0)
                        (photo_count (req_attachments req))
                      # map ChatMsg (recent_messages msgs),
                    allToolCalls = [], allToolResults = [],
                    work_orders_file = wos, clock_reads = reads, judge_calls = [],
                    dispatched = [] \<rparr>"
    by (simp add: chatHandler_def assms(1) s)
  have k: "\<forall>msgs m. req_messages req = Some msgs \<and>
            llm e (SystemMsg (t_id t0) (t_name t0) (t_unit t0) (photo_count (req_attachments req))
                    # map ChatMsg (recent_messages msgs)) = LlmReply m \<and>
            am_tool_calls m = None \<longrightarrow>
            fst (chatHandler e req wos reads) = Ok200 m [] []"
  proof (intro allI impI)
    fix msgs m
    assume a: "req_messages req = Some msgs \<and>
            llm e (SystemMsg (t_id t0) (t_name t0) (t_unit t0) (photo_count (req_attachments req))
                    # map ChatMsg (recent_messages msgs)) = LlmReply m \<and>
            am_tool_calls m = None"
    with l have "chatHandler e req wos reads
              = agent_loop e t0 (req_attachments req) 0
                  \<lparr> conversation =
                      SystemMsg (t_id t0) (t_name t0) (t_unit t0)
                        (photo_count (req_attachments req))
                      # map ChatMsg (recent_messages msgs),
                    allToolCalls = [], allToolResults = [],
                    work_orders_file = wos, clock_reads = reads, judge_calls = [],
                    dispatched = [] \<rparr>"
      by blast
    with a show "fst (chatHandler e req wos reads) = Ok200 m [] []"
      by (simp add: agent_loop.simps MAX_LOOPS_def)
  qed
  from chatHandler_bound [OF assms(1) s]
  have b: "list_all (tenant_bound (t_id t0))
           (dispatched (fst (snd (chatHandler e req wos reads))))" .
  from s c l k b show ?thesis by blast
qed

theorem unknown_tenant_served_as_first_witness:
  "session_tenant [alice, bruno] (req_tenantId hello_request) = Some alice \<and>
   chatHandler quiet_env hello_request [tap_order] 0
     = chatHandler quiet_env (hello_request\<lparr>req_tenantId := Some (t_id alice)\<rparr>) [tap_order] 0 \<and>
   fst (chatHandler quiet_env hello_request [tap_order] 0)
     = Ok200 \<lparr> am_content = Some (lit ''How can I help?''), am_tool_calls = None \<rparr> [] [] \<and>
   list_all (tenant_bound (lit ''tenant-001''))
     (dispatched (fst (snd (chatHandler busy_env hello_request [tap_order, alarm_order] 0)))) \<and>
   map fst (dispatched (fst (snd (chatHandler busy_env hello_request [tap_order, alarm_order] 0))))
     = replicate 5 (lit ''get_work_orders'')"
proof -
  have h1: "tenants quiet_env = Some (alice # [bruno])"
    by (simp add: quiet_env_def)
  have h1': "tenants busy_env = Some (alice # [bruno])"
    by (simp add: busy_env_def)
  have h2: "\<forall>t \<in> set (alice # [bruno]). Some (t_id t) \<noteq> req_tenantId hello_request"
    by (simp add: alice_def bruno_def hello_request_def)
  have m: "req_messages hello_request = Some [\<lparr> m_role = lit ''user'', m_content = lit ''hello'' \<rparr>]"
    by (simp add: hello_request_def)
  have q: "llm quiet_env conv
      = LlmReply \<lparr> am_content = Some (lit ''How can I help?''), am_tool_calls = None \<rparr>" for conv
    by (simp add: quiet_env_def quiet_llm_def)
  have id: "t_id alice = lit ''tenant-001''" by (simp add: alice_def)
  from unknown_tenant_served_as_first [OF h1 h2, of "[tap_order]" 0]
  have a: "session_tenant [alice, bruno] (req_tenantId hello_request) = Some alice"
    and b: "chatHandler quiet_env hello_request [tap_order] 0
     = chatHandler quiet_env (hello_request\<lparr>req_tenantId := Some (t_id alice)\<rparr>) [tap_order] 0"
    and k: "\<forall>msgs m. req_messages hello_request = Some msgs \<and>
            llm quiet_env (SystemMsg (t_id alice) (t_name alice) (t_unit alice)
                    (photo_count (req_attachments hello_request))
                    # map ChatMsg (recent_messages msgs)) = LlmReply m \<and>
            am_tool_calls m = None \<longrightarrow>
            fst (chatHandler quiet_env hello_request [tap_order] 0) = Ok200 m [] []"
    by blast+
  have pre: "req_messages hello_request
        = Some [\<lparr> m_role = lit ''user'', m_content = lit ''hello'' \<rparr>] \<and>
      llm quiet_env (SystemMsg (t_id alice) (t_name alice) (t_unit alice)
                    (photo_count (req_attachments hello_request))
                    # map ChatMsg (recent_messages [\<lparr> m_role = lit ''user'', m_content = lit ''hello'' \<rparr>]))
        = LlmReply \<lparr> am_content = Some (lit ''How can I help?''), am_tool_calls = None \<rparr> \<and>
      am_tool_calls \<lparr> am_content = Some (lit ''How can I help?''), am_tool_calls = None \<rparr> = None"
    using m q by simp
  from unknown_tenant_served_as_first [OF h1' h2, of "[tap_order, alarm_order]" 0]
  have d: "list_all (tenant_bound (t_id alice))
     (dispatched (fst (snd (chatHandler busy_env hello_request [tap_order, alarm_order] 0))))"
    by blast
  have n: "map fst (dispatched (fst (snd (chatHandler busy_env hello_request
                                             [tap_order, alarm_order] 0))))
     = replicate 5 (lit ''get_work_orders'')"
    by code_simp
  from k [rule_format, OF pre] a b d n id show ?thesis by simp
qed

end
